theory Spec2Isabelle
  imports Main
begin

section \<open>Values of the JavaScript runtime\<close>

text \<open>
  The orchestrator in \<^verbatim>\<open>src/worker/chat.ts\<close> handles structured values (tool arguments,
  tool results) only through \<^verbatim>\<open>JSON.parse\<close> and \<^verbatim>\<open>JSON.stringify\<close>. They are modelled
  as JSON trees; numbers are integers, strings are lists of 8-bit characters, and the
  members of an object keep their insertion order, as \<^verbatim>\<open>JSON.stringify\<close> emits them.
\<close>

datatype json =
    JNull
  | JBool bool
  | JNumber int
  | JString string
  | JArray "json list"
  | JObject "(string \<times> json) list"

text \<open>
  A value caught by a \<^verbatim>\<open>catch\<close> clause: an instance of \<^verbatim>\<open>Error\<close> with its
  \<^verbatim>\<open>message\<close>, or any other thrown value.
\<close>

datatype thrown = ErrorObject string | OtherThrown

text \<open>Truthiness of a string-valued expression that may be \<^verbatim>\<open>undefined\<close>.\<close>

fun truthy :: "string option \<Rightarrow> bool" where
  "truthy None = False"
| "truthy (Some s) = (s \<noteq> [])"

text \<open>\<^verbatim>\<open>x || d\<close> for a string \<^verbatim>\<open>x\<close> that may be \<^verbatim>\<open>undefined\<close> and a string \<^verbatim>\<open>d\<close>.\<close>

fun orElse :: "string option \<Rightarrow> string \<Rightarrow> string" where
  "orElse None d = d"
| "orElse (Some s) d = (if s \<noteq> [] then s else d)"

subsection \<open>Decimal rendering of numbers in template strings and JSON text\<close>

definition digitChar :: "nat \<Rightarrow> char" where
  "digitChar d = ''0123456789abcdef'' ! d"

fun natToString :: "nat \<Rightarrow> string" where
  "natToString n =
     (if n < 10 then [digitChar n] else natToString (n div 10) @ [digitChar (n mod 10)])"

declare natToString.simps [simp del]

definition intToString :: "int \<Rightarrow> string" where
  "intToString i = (if i < 0 then CHR ''-'' # natToString (nat (- i)) else natToString (nat i))"

subsection \<open>\<^verbatim>\<open>JSON.stringify\<close>\<close>

text \<open>
  The quoting of one character inside a JSON string: the quote and the backslash get a
  backslash, the control characters their short escape or \<^verbatim>\<open>\u00XX\<close>.
\<close>

definition quoteChar :: "char \<Rightarrow> string" where
  "quoteChar c =
     (if c = CHR 0x22 then [CHR 0x5C, CHR 0x22]
      else if c = CHR 0x5C then [CHR 0x5C, CHR 0x5C]
      else if c = CHR 0x08 then [CHR 0x5C, CHR ''b'']
      else if c = CHR 0x09 then [CHR 0x5C, CHR ''t'']
      else if c = CHR 0x0A then [CHR 0x5C, CHR ''n'']
      else if c = CHR 0x0C then [CHR 0x5C, CHR ''f'']
      else if c = CHR 0x0D then [CHR 0x5C, CHR ''r'']
      else if (of_char c :: nat) < 32
        then [CHR 0x5C, CHR ''u'', CHR ''0'', CHR ''0'',
              digitChar (of_char c div 16), digitChar (of_char c mod 16)]
      else [c])"

definition quoteString :: "string \<Rightarrow> string" where
  "quoteString s = CHR 0x22 # concat (map quoteChar s) @ [CHR 0x22]"

fun stringify :: "json \<Rightarrow> string"
  and stringifyElements :: "json list \<Rightarrow> string"
  and stringifyMembers :: "(string \<times> json) list \<Rightarrow> string"
where
  "stringify JNull = ''null''"
| "stringify (JBool b) = (if b then ''true'' else ''false'')"
| "stringify (JNumber i) = intToString i"
| "stringify (JString s) = quoteString s"
| "stringify (JArray xs) = ''['' @ stringifyElements xs @ '']''"
| "stringify (JObject ms) = ''{'' @ stringifyMembers ms @ ''}''"
| "stringifyElements [] = []"
| "stringifyElements [x] = stringify x"
| "stringifyElements (x # y # xs) = stringify x @ '','' @ stringifyElements (y # xs)"
| "stringifyMembers [] = []"
| "stringifyMembers [(k, v)] = quoteString k @ '':'' @ stringify v"
| "stringifyMembers ((k, v) # m # ms) =
     quoteString k @ '':'' @ stringify v @ '','' @ stringifyMembers (m # ms)"

section \<open>Data model\<close>

text \<open>
  \<^verbatim>\<open>ChatCompletionMessageFunctionToolCall\<close>: a tool-call request of the model,
  \<^verbatim>\<open>{ id, type: 'function', function: { name, arguments } }\<close>.
\<close>

record function_call =
  fn_name :: string
  fn_arguments :: string

record tool_call_request =
  tc_id :: string
  tc_type :: string
  tc_function :: function_call

text \<open>
  Modelled from the spec: the type \<^verbatim>\<open>ToolCall\<close> of \<^verbatim>\<open>./types\<close>, which is not
  among the sources. An executed tool call is \<^verbatim>\<open>{ id, name, arguments, result }\<close>, the
  arguments a parsed structured value, the result a structured value or
  \<^verbatim>\<open>{ error: text }\<close>; these are the fields \<^verbatim>\<open>executeToolCalls\<close> writes.
\<close>

record tool_call =
  call_id :: string
  call_name :: string
  call_arguments :: json
  call_result :: json

text \<open>
  What \<^verbatim>\<open>chat.ts\<close> calls and does not define: \<^verbatim>\<open>getToolDefinitions\<close> and
  \<^verbatim>\<open>executeTool\<close> of \<^verbatim>\<open>./tools\<close> (not among the sources), and the runtime's
  \<^verbatim>\<open>JSON.parse\<close> and \<^verbatim>\<open>Date.now\<close>. They are parameters of the model, so that what
  is proved holds for every registry, parser and clock. Either function of the registry
  returns or throws; \<^verbatim>\<open>JSON.parse\<close> returns the parsed value or throws a
  \<^verbatim>\<open>SyntaxError\<close> (an \<^verbatim>\<open>Error\<close>, given by its message); \<^verbatim>\<open>Date_now k i\<close> is the reading
  of the clock while position \<open>i\<close> of the \<open>k\<close>-th chunk of a stream is handled.
\<close>

record env =
  getToolDefinitions :: "thrown + json list"
  executeTool :: "string \<Rightarrow> json \<Rightarrow> thrown + json"
  JSON_parse :: "string \<Rightarrow> string + json"
  Date_now :: "nat \<Rightarrow> nat \<Rightarrow> nat"

section \<open>Executing tool calls\<close>

text \<open>\<^verbatim>\<open>error instanceof Error ? error.message : 'Unknown error'\<close>\<close>

fun failureDescription :: "thrown \<Rightarrow> string" where
  "failureDescription (ErrorObject m) = m"
| "failureDescription OtherThrown = ''Unknown error''"

text \<open>The \<^verbatim>\<open>catch\<close> branch of the callback of \<^verbatim>\<open>executeToolCalls\<close>.\<close>

definition failedToolCall :: "tool_call_request \<Rightarrow> thrown \<Rightarrow> tool_call" where
  "failedToolCall tc e =
     \<lparr> call_id = tc_id tc,
       call_name = fn_name (tc_function tc),
       call_arguments = JObject [],
       call_result = JObject [(''error'',
         JString (''Failed to execute '' @ fn_name (tc_function tc) @ '': '' @ failureDescription e))] \<rparr>"

text \<open>\<^verbatim>\<open>tc.function.arguments ? JSON.parse(tc.function.arguments) : {}\<close>\<close>

definition parseArguments :: "env \<Rightarrow> tool_call_request \<Rightarrow> string + json" where
  "parseArguments ev tc =
     (if fn_arguments (tc_function tc) \<noteq> []
      then JSON_parse ev (fn_arguments (tc_function tc))
      else Inr (JObject []))"

text \<open>The callback mapped over the requests: the \<^verbatim>\<open>try\<close> block and its \<^verbatim>\<open>catch\<close>.\<close>

definition executeToolCall :: "env \<Rightarrow> tool_call_request \<Rightarrow> tool_call" where
  "executeToolCall ev tc =
     (case parseArguments ev tc of
        Inl m \<Rightarrow> failedToolCall tc (ErrorObject m)
      | Inr args \<Rightarrow>
          (case executeTool ev (fn_name (tc_function tc)) args of
             Inl e \<Rightarrow> failedToolCall tc e
           | Inr result \<Rightarrow>
               \<lparr> call_id = tc_id tc,
                 call_name = fn_name (tc_function tc),
                 call_arguments = args,
                 call_result = result \<rparr>))"

text \<open>
  \<^verbatim>\<open>Promise.all(openAiToolCalls.map(async (tc) => ...))\<close>: no callback rejects, so the
  promise resolves to the callbacks' values in the order of the requests.
\<close>

definition executeToolCalls :: "env \<Rightarrow> tool_call_request list \<Rightarrow> tool_call list" where
  "executeToolCalls ev openAiToolCalls = map (executeToolCall ev) openAiToolCalls"

section \<open>Messages, requests and responses of the completion client\<close>

datatype role = System | User | Assistant | Tool

text \<open>
  Modelled from the spec: the type \<^verbatim>\<open>Message\<close> of \<^verbatim>\<open>./types\<close>, which is not among
  the sources. An entry of the conversation history is
  \<^verbatim>\<open>{ role: one of {system, user, assistant, tool}, content: text or null }\<close>. The
  orchestrator reads its \<^verbatim>\<open>role\<close> and \<^verbatim>\<open>content\<close> only; whatever else an entry
  carries is the extension of the record.
\<close>

record message =
  role :: role
  content :: "string option"

text \<open>
  A message sent to the completion client. The fields a message does not have are
  \<open>None\<close>.
\<close>

record chat_message =
  cm_role :: role
  cm_content :: "string option"
  cm_tool_calls :: "tool_call_request list option"
  cm_tool_call_id :: "string option"

text \<open>The parameters of \<^verbatim>\<open>client.chat.completions.create\<close>.\<close>

record request =
  rq_model :: string
  rq_messages :: "chat_message list"
  rq_tools :: "json list option"
  rq_tool_choice :: "string option"
  rq_max_tokens :: nat
  rq_stream :: "bool option"

text \<open>A complete response: \<^verbatim>\<open>ChatCompletion\<close>, its choices and their messages.\<close>

record response_message =
  rm_content :: "string option"
  rm_tool_calls :: "tool_call_request list option"

record completion_choice =
  cc_message :: response_message

record completion =
  cp_choices :: "completion_choice list"

text \<open>A streamed response: \<^verbatim>\<open>ChatCompletionChunk\<close>, its choices and their deltas.\<close>

record delta_function =
  df_name :: "string option"
  df_arguments :: "string option"

record delta_tool_call =
  dtc_index :: nat
  dtc_id :: "string option"
  dtc_function :: "delta_function option"

record chunk_delta =
  d_content :: "string option"
  d_tool_calls :: "delta_tool_call list option"

record chunk_choice =
  ch_delta :: chunk_delta

record chunk =
  ck_choices :: "chunk_choice list"

text \<open>
  What iterating the stream yields: a chunk, or a fault raised by the iterator. A stream
  is the list of what it yields; nothing after a fault is read.
\<close>

datatype stream_event = Chunk chunk | Raise thrown

text \<open>
  The OpenAI client: \<^verbatim>\<open>create\<close> with \<^verbatim>\<open>stream: true\<close> resolves to a stream, otherwise
  to a completion; either call may reject.
\<close>

record client =
  create_completion :: "request \<Rightarrow> thrown + completion"
  create_stream :: "request \<Rightarrow> thrown + stream_event list"

text \<open>The fields of \<^verbatim>\<open>class ChatHandler\<close>.\<close>

record chat_handler =
  client :: client
  model :: string

definition updateModel :: "chat_handler \<Rightarrow> string \<Rightarrow> chat_handler" where
  "updateModel this newModel = this\<lparr>model := newModel\<rparr>"

text \<open>The value \<^verbatim>\<open>processMessage\<close> resolves to.\<close>

record turn_result =
  tr_content :: string
  tr_toolCalls :: "tool_call list option"

section \<open>Building the conversation\<close>

text \<open>The lines of the template literal \<^verbatim>\<open>systemPrompt\<close>.\<close>

definition systemPromptLines :: "string list" where
  \<open>systemPromptLines =
    [''You are "AuraHire", a professional and courteous AI-powered interview agent. Your purpose is to conduct a structured initial screening interview for HR roles.'',
     ''Your process is as follows:'',
     ''1.  **Initial State**: If the conversation has just begun, you have already greeted the user and asked them to select a role. You are now waiting for their selection.'',
     ''2.  **Role Selection**: The user's first message will indicate their chosen role, either "Office Staff" or "Beauty Host".'',
     ''3.  **Initiate Interview**: Once the role is identified, acknowledge their selection and begin the structured 5-question interview for that specific role. Ask only ONE question at a time.'',
     ''4.  **Conduct Interview**: After each user response, ask the next question in the sequence. Be encouraging and maintain a professional tone. Do not deviate from the script.'',
     ''5.  **Conclusion**: After the 5th question is answered, provide a polite concluding message and end the interview.'',
     ''**Interview Script for "Office Staff":**'',
     ''- Question 1: "Great, let's begin. Can you describe your previous experience in an office environment and what your key responsibilities were?"'',
     ''- Question 2: "How do you prioritize your tasks when you have multiple deadlines to meet?"'',
     ''- Question 3: "Describe a time you had to handle a difficult situation with a colleague or client. How did you resolve it?"'',
     ''- Question 4: "What software and tools are you proficient in for office administration?"'',
     ''- Question 5: "What do you believe are the most important qualities for an office staff member to contribute to a positive and efficient workplace?"'',
     ''- Concluding Message: "Thank you for sharing your experiences. That concludes our initial screening. We appreciate your time, and our HR team will be in touch with the next steps. Have a great day!"'',
     ''**Interview Script for "Beauty Host":**'',
     ''- Question 1: "Excellent, let's get started. What attracts you to the role of a Beauty Host, and what does an elevated brand experience mean to you?"'',
     ''- Question 2: "Can you share an example of a time you went above and beyond to provide exceptional customer service?"'',
     ''- Question 3: "How do you stay updated on the latest beauty trends and product knowledge?"'',
     ''- Question 4: "Describe a situation where you had to assist a client who was unsure about what they wanted. How did you guide them?"'',
     ''- Question 5: "In a fast-paced retail environment, how do you maintain a positive and welcoming atmosphere for every client?"'',
     ''- Concluding Message: "Thank you for your thoughtful answers. That's all the questions I have for now. We appreciate you taking the time to speak with us. Our recruitment team will review your responses and be in contact regarding the next steps. Have a wonderful day!"'',
     ''**Rules of Engagement:**'',
     ''- Only ask one question at a time.'',
     ''- Wait for the user's response before proceeding to the next question.'',
     ''- Do not add any commentary or follow-up questions outside of the script.'',
     ''- If the user's first message is not a role selection, gently guide them back: "To proceed, please first select a role from the dropdown menu."'']\<close>

definition systemPrompt :: string where
  "systemPrompt =
     (case systemPromptLines of
        [] \<Rightarrow> []
      | l # ls \<Rightarrow> l @ concat (map (\<lambda>x. CHR 0x0A # x) ls))"

text \<open>\<^verbatim>\<open>m => ({ role: m.role, content: m.content })\<close>\<close>

definition historyEntry :: "'a message_scheme \<Rightarrow> chat_message" where
  "historyEntry m =
     \<lparr> cm_role = role m, cm_content = content m, cm_tool_calls = None, cm_tool_call_id = None \<rparr>"

definition buildConversationMessages ::
  "chat_handler \<Rightarrow> string \<Rightarrow> 'a message_scheme list \<Rightarrow> chat_message list" where
  "buildConversationMessages this userMessage history =
     [\<lparr> cm_role = System, cm_content = Some systemPrompt,
        cm_tool_calls = None, cm_tool_call_id = None \<rparr>]
     @ map historyEntry history
     @ [\<lparr> cm_role = User, cm_content = Some userMessage,
          cm_tool_calls = None, cm_tool_call_id = None \<rparr>]"

section \<open>The follow-up call after tool execution\<close>

text \<open>\<^verbatim>\<open>history.slice(-3)\<close>: the last three entries, or all of them when there are fewer.\<close>

definition sliceLast :: "nat \<Rightarrow> 'a list \<Rightarrow> 'a list" where
  "sliceLast n xs = drop (length xs - n) xs"

text \<open>
  \<^verbatim>\<open>openAiToolCalls[index]?.id || result.id\<close>: an index outside the array reads
  \<^verbatim>\<open>undefined\<close>.
\<close>

definition toolCallIdFor :: "tool_call_request list \<Rightarrow> nat \<Rightarrow> tool_call \<Rightarrow> string" where
  "toolCallIdFor openAiToolCalls index result =
     orElse (if index < length openAiToolCalls then Some (tc_id (openAiToolCalls ! index)) else None)
       (call_id result)"

definition toolMessage :: "tool_call_request list \<Rightarrow> tool_call \<times> nat \<Rightarrow> chat_message" where
  "toolMessage openAiToolCalls p =
     (case p of (result, index) \<Rightarrow>
        \<lparr> cm_role = Tool,
          cm_content = Some (stringify (call_result result)),
          cm_tool_calls = None,
          cm_tool_call_id = Some (toolCallIdFor openAiToolCalls index result) \<rparr>)"

text \<open>The \<^verbatim>\<open>messages\<close> array of the follow-up call.\<close>

definition toolResponseMessages ::
  "string \<Rightarrow> 'a message_scheme list \<Rightarrow> tool_call_request list \<Rightarrow> tool_call list
     \<Rightarrow> chat_message list" where
  "toolResponseMessages userMessage history openAiToolCalls toolResults =
     [\<lparr> cm_role = System,
        cm_content = Some ''You are a helpful AI assistant. Respond naturally to the tool results.'',
        cm_tool_calls = None, cm_tool_call_id = None \<rparr>]
     @ map historyEntry (sliceLast 3 history)
     @ [\<lparr> cm_role = User, cm_content = Some userMessage,
          cm_tool_calls = None, cm_tool_call_id = None \<rparr>]
     @ [\<lparr> cm_role = Assistant, cm_content = None,
          cm_tool_calls = Some openAiToolCalls, cm_tool_call_id = None \<rparr>]
     @ map (toolMessage openAiToolCalls) (zip toolResults [0 ..< length toolResults])"

definition toolResponseRequest ::
  "chat_handler \<Rightarrow> string \<Rightarrow> 'a message_scheme list \<Rightarrow> tool_call_request list
     \<Rightarrow> tool_call list \<Rightarrow> request" where
  "toolResponseRequest this userMessage history openAiToolCalls toolResults =
     \<lparr> rq_model = model this,
       rq_messages = toolResponseMessages userMessage history openAiToolCalls toolResults,
       rq_tools = None,
       rq_tool_choice = None,
       rq_max_tokens = 4096,
       rq_stream = None \<rparr>"

text \<open>\<^verbatim>\<open>completion.choices[0]?.message?.content\<close>\<close>

definition firstContent :: "completion \<Rightarrow> string option" where
  "firstContent c = (case cp_choices c of [] \<Rightarrow> None | ch # _ \<Rightarrow> rm_content (cc_message ch))"

definition generateToolResponse ::
  "chat_handler \<Rightarrow> string \<Rightarrow> 'a message_scheme list \<Rightarrow> tool_call_request list
     \<Rightarrow> tool_call list \<Rightarrow> thrown + string" where
  "generateToolResponse this userMessage history openAiToolCalls toolResults =
     (case create_completion (client this)
             (toolResponseRequest this userMessage history openAiToolCalls toolResults) of
        Inl e \<Rightarrow> Inl e
      | Inr followUpCompletion \<Rightarrow>
          Inr (orElse (firstContent followUpCompletion) ''Tool results processed successfully.''))"

section \<open>The blocking branch\<close>

definition handleNonStreamResponse ::
  "chat_handler \<Rightarrow> env \<Rightarrow> completion \<Rightarrow> string \<Rightarrow> 'a message_scheme list
     \<Rightarrow> thrown + turn_result" where
  "handleNonStreamResponse this ev completion message history =
     (case cp_choices completion of
        [] \<Rightarrow>
          Inr \<lparr> tr_content = ''I apologize, but I encountered an issue processing your request.'',
                tr_toolCalls = None \<rparr>
      | ch # _ \<Rightarrow>
          (case rm_tool_calls (cc_message ch) of
             None \<Rightarrow>
               Inr \<lparr> tr_content =
                       orElse (rm_content (cc_message ch)) ''I apologize, but I encountered an issue.'',
                     tr_toolCalls = None \<rparr>
           | Some tool_calls \<Rightarrow>
               (let toolCalls = executeToolCalls ev tool_calls in
                case generateToolResponse this message history tool_calls toolCalls of
                  Inl e \<Rightarrow> Inl e
                | Inr finalResponse \<Rightarrow>
                    Inr \<lparr> tr_content = finalResponse, tr_toolCalls = Some toolCalls \<rparr>)))"

section \<open>The streaming branch\<close>

text \<open>\<^verbatim>\<open>deltaToolCall.function?.name\<close> and \<^verbatim>\<open>deltaToolCall.function?.arguments\<close>\<close>

definition deltaName :: "delta_tool_call \<Rightarrow> string option" where
  "deltaName d = (case dtc_function d of None \<Rightarrow> None | Some f \<Rightarrow> df_name f)"

definition deltaArguments :: "delta_tool_call \<Rightarrow> string option" where
  "deltaArguments d = (case dtc_function d of None \<Rightarrow> None | Some f \<Rightarrow> df_arguments f)"

text \<open>
  The entry a fragment creates at a position that has none, while position \<open>i\<close> of the
  \<open>k\<close>-th chunk is handled.
\<close>

definition newToolCall :: "env \<Rightarrow> nat \<Rightarrow> nat \<Rightarrow> delta_tool_call \<Rightarrow> tool_call_request" where
  "newToolCall ev k i d =
     \<lparr> tc_id = orElse (dtc_id d)
                 (''tool_'' @ natToString (Date_now ev k i) @ ''_'' @ natToString i),
       tc_type = ''function'',
       tc_function =
         \<lparr> fn_name = orElse (deltaName d) [],
           fn_arguments = orElse (deltaArguments d) [] \<rparr> \<rparr>"

text \<open>The \<^verbatim>\<open>else\<close> branch: a fragment merged into the entry its position already has.\<close>

definition appendToolCall :: "tool_call_request \<Rightarrow> delta_tool_call \<Rightarrow> tool_call_request" where
  "appendToolCall a d =
     (let a1 = (if truthy (deltaName d) \<and> fn_name (tc_function a) = []
                then a\<lparr>tc_function := (tc_function a)\<lparr>fn_name := orElse (deltaName d) []\<rparr>\<rparr>
                else a)
      in if truthy (deltaArguments d)
         then a1\<lparr>tc_function :=
                   (tc_function a1)\<lparr>fn_arguments :=
                      fn_arguments (tc_function a1) @ orElse (deltaArguments d) []\<rparr>\<rparr>
         else a1)"

text \<open>
  The loop over \<^verbatim>\<open>delta.tool_calls\<close>, from position \<open>i\<close> on, \<open>ds\<close> being the fragments
  from that position. The accumulator is a JavaScript array written at position \<open>i\<close>;
  the loop starts at 0 and steps by one, so \<open>i\<close> never exceeds the array's length and a
  write at a position without entry extends the array by one.
\<close>

fun mergeToolCalls ::
  "env \<Rightarrow> nat \<Rightarrow> tool_call_request list \<Rightarrow> nat \<Rightarrow> delta_tool_call list
     \<Rightarrow> tool_call_request list" where
  "mergeToolCalls ev k acc i [] = acc"
| "mergeToolCalls ev k acc i (d # ds) =
     mergeToolCalls ev k
       (if i < length acc then acc[i := appendToolCall (acc ! i) d]
        else acc @ [newToolCall ev k i d])
       (Suc i) ds"

text \<open>
  The variables of \<^verbatim>\<open>handleStreamResponse\<close> that the loop updates, and the calls of
  \<^verbatim>\<open>onChunk\<close> it has made, in order.
\<close>

record stream_state =
  fullContent :: string
  accumulatedToolCalls :: "tool_call_request list"
  forwarded :: "string list"

definition initialState :: stream_state where
  "initialState = \<lparr> fullContent = [], accumulatedToolCalls = [], forwarded = [] \<rparr>"

text \<open>
  The body of the \<^verbatim>\<open>for await\<close> loop for the \<open>k\<close>-th chunk. The caller's sink
  \<^verbatim>\<open>onChunk\<close> returns normally (\<open>None\<close>) or throws.
\<close>

definition processChunk ::
  "env \<Rightarrow> (string \<Rightarrow> thrown option) \<Rightarrow> nat \<Rightarrow> stream_state \<Rightarrow> chunk \<Rightarrow> thrown + stream_state" where
  "processChunk ev onChunk k st c =
     (case ck_choices c of
        [] \<Rightarrow> Inr st
      | ch # _ \<Rightarrow>
          (let delta = ch_delta ch in
           case (if truthy (d_content delta)
                 then (case onChunk (orElse (d_content delta) []) of
                         Some e \<Rightarrow> Inl e
                       | None \<Rightarrow>
                           Inr (st\<lparr> fullContent := fullContent st @ orElse (d_content delta) [],
                                    forwarded := forwarded st @ [orElse (d_content delta) []] \<rparr>))
                 else Inr st) of
             Inl e \<Rightarrow> Inl e
           | Inr st1 \<Rightarrow>
               (case d_tool_calls delta of
                  None \<Rightarrow> Inr st1
                | Some tool_calls \<Rightarrow>
                    Inr (st1\<lparr> accumulatedToolCalls :=
                               mergeToolCalls ev k (accumulatedToolCalls st1) 0 tool_calls \<rparr>))))"

text \<open>The \<^verbatim>\<open>for await\<close> loop, \<open>k\<close> chunks having been handled.\<close>

fun consumeStream ::
  "env \<Rightarrow> (string \<Rightarrow> thrown option) \<Rightarrow> nat \<Rightarrow> stream_state \<Rightarrow> stream_event list
     \<Rightarrow> thrown + stream_state" where
  "consumeStream ev onChunk k st [] = Inr st"
| "consumeStream ev onChunk k st (Raise e # rest) = Inl e"
| "consumeStream ev onChunk k st (Chunk c # rest) =
     (case processChunk ev onChunk k st c of
        Inl e \<Rightarrow> Inl e
      | Inr st' \<Rightarrow> consumeStream ev onChunk (Suc k) st' rest)"

definition handleStreamResponse ::
  "chat_handler \<Rightarrow> env \<Rightarrow> stream_event list \<Rightarrow> string \<Rightarrow> 'a message_scheme list
     \<Rightarrow> (string \<Rightarrow> thrown option) \<Rightarrow> thrown + turn_result" where
  "handleStreamResponse this ev stream message history onChunk =
     (case consumeStream ev onChunk 0 initialState stream of
        Inl e \<Rightarrow> Inl (ErrorObject ''Stream processing failed'')
      | Inr st \<Rightarrow>
          (if length (accumulatedToolCalls st) > 0
           then (let executedTools = executeToolCalls ev (accumulatedToolCalls st) in
                 case generateToolResponse this message history (accumulatedToolCalls st)
                        executedTools of
                   Inl e \<Rightarrow> Inl e
                 | Inr finalResponse \<Rightarrow>
                     Inr \<lparr> tr_content = finalResponse, tr_toolCalls = Some executedTools \<rparr>)
           else Inr \<lparr> tr_content = fullContent st, tr_toolCalls = None \<rparr>))"

section \<open>One turn\<close>

text \<open>The parameters of the first call; \<open>streaming\<close> is its \<^verbatim>\<open>stream\<close> flag.\<close>

definition primaryRequest ::
  "chat_handler \<Rightarrow> chat_message list \<Rightarrow> json list \<Rightarrow> bool \<Rightarrow> request" where
  "primaryRequest this messages toolDefinitions streaming =
     \<lparr> rq_model = model this,
       rq_messages = messages,
       rq_tools = Some toolDefinitions,
       rq_tool_choice = Some ''auto'',
       rq_max_tokens = 4096,
       rq_stream = Some streaming \<rparr>"

definition processMessage ::
  "chat_handler \<Rightarrow> env \<Rightarrow> string \<Rightarrow> 'a message_scheme list \<Rightarrow> (string \<Rightarrow> thrown option) option
     \<Rightarrow> thrown + turn_result" where
  "processMessage this ev message conversationHistory onChunk =
     (let messages = buildConversationMessages this message conversationHistory in
      case getToolDefinitions ev of
        Inl e \<Rightarrow> Inl e
      | Inr toolDefinitions \<Rightarrow>
          (case onChunk of
             Some sink \<Rightarrow>
               (case create_stream (client this)
                       (primaryRequest this messages toolDefinitions True) of
                  Inl e \<Rightarrow> Inl e
                | Inr stream \<Rightarrow>
                    handleStreamResponse this ev stream message conversationHistory sink)
           | None \<Rightarrow>
               (case create_completion (client this)
                       (primaryRequest this messages toolDefinitions False) of
                  Inl e \<Rightarrow> Inl e
                | Inr completion \<Rightarrow>
                    handleNonStreamResponse this ev completion message conversationHistory)))"

section \<open>What a response asks for\<close>

text \<open>
  The vocabulary of the properties below, read off the responses of the completion
  client: the tool calls a complete response requests, the chunks a stream delivers before
  it ends or faults, the tool-call fragments of a chunk, and the fragments that arrive at
  one position, in the order of arrival.
\<close>

definition requestedToolCalls :: "completion \<Rightarrow> tool_call_request list" where
  "requestedToolCalls c =
     (case cp_choices c of
        [] \<Rightarrow> []
      | ch # _ \<Rightarrow> (case rm_tool_calls (cc_message ch) of None \<Rightarrow> [] | Some tcs \<Rightarrow> tcs))"

definition toolCallFragments :: "chunk \<Rightarrow> delta_tool_call list" where
  "toolCallFragments c =
     (case ck_choices c of
        [] \<Rightarrow> []
      | ch # _ \<Rightarrow> (case d_tool_calls (ch_delta ch) of None \<Rightarrow> [] | Some ds \<Rightarrow> ds))"

fun chunksOf :: "stream_event list \<Rightarrow> chunk list" where
  "chunksOf [] = []"
| "chunksOf (Chunk c # rest) = c # chunksOf rest"
| "chunksOf (Raise e # rest) = []"

definition fragmentsAt :: "nat \<Rightarrow> chunk list \<Rightarrow> delta_tool_call list" where
  "fragmentsAt i cs =
     concat (map (\<lambda>c. if i < length (toolCallFragments c) then [toolCallFragments c ! i] else []) cs)"

fun firstNonEmpty :: "string list \<Rightarrow> string" where
  "firstNonEmpty [] = []"
| "firstNonEmpty (n # ns) = (if n \<noteq> [] then n else firstNonEmpty ns)"

text \<open>A turn result has tool calls when the field is there and is not the empty list.\<close>

definition hasToolCalls :: "turn_result \<Rightarrow> bool" where
  "hasToolCalls r = (case tr_toolCalls r of None \<Rightarrow> False | Some tcs \<Rightarrow> tcs \<noteq> [])"

text \<open>
  A response that carries content text only: as one fragment of a stream, and as a
  complete response.
\<close>

definition contentChunk :: "string \<Rightarrow> stream_event" where
  "contentChunk f =
     Chunk \<lparr> ck_choices = [\<lparr> ch_delta = \<lparr> d_content = Some f, d_tool_calls = None \<rparr> \<rparr>] \<rparr>"

definition contentCompletion :: "string \<Rightarrow> completion" where
  "contentCompletion t =
     \<lparr> cp_choices = [\<lparr> cc_message = \<lparr> rm_content = Some t, rm_tool_calls = None \<rparr> \<rparr>] \<rparr>"

section \<open>Sample inputs\<close>

text \<open>
  A registry with the tool \<^verbatim>\<open>echo\<close>, which returns its arguments, and the tool
  \<^verbatim>\<open>crash\<close>, which throws a value that is no \<^verbatim>\<open>Error\<close>; a parser that knows two
  argument texts; a sink that returns normally. They instantiate the theorems below at
  concrete turns.
\<close>

definition sampleParse :: "string \<Rightarrow> string + json" where
  \<open>sampleParse s =
     (if s = ''{"v":1}'' then Inr (JObject [(''v'', JNumber 1)])
      else if s = ''{"q":"x"}'' then Inr (JObject [(''q'', JString ''x'')])
      else Inl ''Unexpected end of JSON input'')\<close>

definition sampleExecute :: "string \<Rightarrow> json \<Rightarrow> thrown + json" where
  "sampleExecute n args =
     (if n = ''echo'' then Inr args
      else if n = ''crash'' then Inl OtherThrown
      else Inl (ErrorObject (''Unknown tool: '' @ n)))"

definition sampleEnv :: env where
  "sampleEnv =
     \<lparr> getToolDefinitions = Inr [],
       executeTool = sampleExecute,
       JSON_parse = sampleParse,
       Date_now = (\<lambda>k i. 1700000000000 + k) \<rparr>"

definition quietSink :: "string \<Rightarrow> thrown option" where
  "quietSink s = None"

definition sampleRequests :: "tool_call_request list" where
  \<open>sampleRequests =
     [\<lparr> tc_id = ''call_a'', tc_type = ''function'',
         tc_function = \<lparr> fn_name = ''echo'', fn_arguments = ''{"v":1}'' \<rparr> \<rparr>,
      \<lparr> tc_id = ''call_b'', tc_type = ''function'',
         tc_function = \<lparr> fn_name = ''lookup'', fn_arguments = [] \<rparr> \<rparr>]\<close>

text \<open>
  Three requests that fail: the executor throws after the arguments parsed, the
  arguments do not parse, the executor throws a value that is no \<^verbatim>\<open>Error\<close>.
\<close>

definition sampleFailing :: "tool_call_request list" where
  \<open>sampleFailing =
     [\<lparr> tc_id = ''call_c'', tc_type = ''function'',
         tc_function = \<lparr> fn_name = ''lookup'', fn_arguments = ''{"q":"x"}'' \<rparr> \<rparr>,
      \<lparr> tc_id = ''call_d'', tc_type = ''function'',
         tc_function = \<lparr> fn_name = ''echo'', fn_arguments = ''{"v":'' \<rparr> \<rparr>,
      \<lparr> tc_id = ''call_e'', tc_type = ''function'',
         tc_function = \<lparr> fn_name = ''crash'', fn_arguments = [] \<rparr> \<rparr>]\<close>

text \<open>
  A stream of two chunks that carry one tool call in two fragments at position 0:
  the first with id, name and the beginning of the arguments, the second with the rest
  of the arguments.
\<close>

definition lookupFragment1 :: delta_tool_call where
  \<open>lookupFragment1 =
     \<lparr> dtc_index = 0, dtc_id = Some ''call_1'',
       dtc_function = Some \<lparr> df_name = Some ''lookup'', df_arguments = Some ''{"q":'' \<rparr> \<rparr>\<close>

definition lookupFragment2 :: delta_tool_call where
  \<open>lookupFragment2 =
     \<lparr> dtc_index = 0, dtc_id = None,
       dtc_function = Some \<lparr> df_name = None, df_arguments = Some ''"x"}'' \<rparr> \<rparr>\<close>

definition fragmentChunk :: "delta_tool_call list \<Rightarrow> stream_event" where
  "fragmentChunk ds =
     Chunk \<lparr> ck_choices = [\<lparr> ch_delta = \<lparr> d_content = None, d_tool_calls = Some ds \<rparr> \<rparr>] \<rparr>"

definition lookupStream :: "stream_event list" where
  "lookupStream = [fragmentChunk [lookupFragment1], fragmentChunk [lookupFragment2]]"

definition lookupRequest :: tool_call_request where
  \<open>lookupRequest =
     \<lparr> tc_id = ''call_1'', tc_type = ''function'',
       tc_function = \<lparr> fn_name = ''lookup'', fn_arguments = ''{"q":"x"}'' \<rparr> \<rparr>\<close>

text \<open>
  Clients. The first answers every blocking call with the reply \<^verbatim>\<open>Done.\<close> and every
  streaming call with the stream above; the second delivers \<^verbatim>\<open>Hello\<close>, in two fragments
  or whole; the third delivers a stream that faults after its first fragment; the fourth
  delivers an empty content text; the fifth answers the first call with an empty list of
  tool calls and then rejects.
\<close>

definition sampleClient :: client where
  "sampleClient =
     \<lparr> create_completion = (\<lambda>rq. Inr (contentCompletion ''Done.'')),
       create_stream = (\<lambda>rq. Inr lookupStream) \<rparr>"

definition sampleHandler :: chat_handler where
  "sampleHandler = \<lparr> client = sampleClient, model = ''sample-model'' \<rparr>"

definition helloHandler :: chat_handler where
  "helloHandler =
     \<lparr> client = \<lparr> create_completion = (\<lambda>rq. Inr (contentCompletion ''Hello'')),
                  create_stream = (\<lambda>rq. Inr (map contentChunk [''Hel'', ''lo''])) \<rparr>,
       model = ''sample-model'' \<rparr>"

definition faultyHandler :: chat_handler where
  "faultyHandler =
     \<lparr> client = \<lparr> create_completion = (\<lambda>rq. Inr (contentCompletion ''Hello'')),
                  create_stream =
                    (\<lambda>rq. Inr ([contentChunk ''Hel'']
                               @ Raise (ErrorObject ''socket hang up'') # [contentChunk ''lo''])) \<rparr>,
       model = ''sample-model'' \<rparr>"

definition emptyContentHandler :: chat_handler where
  "emptyContentHandler =
     \<lparr> client = \<lparr> create_completion = (\<lambda>rq. Inr (contentCompletion [])),
                  create_stream = (\<lambda>rq. Inr [contentChunk []]) \<rparr>,
       model = ''sample-model'' \<rparr>"

definition emptyToolCallsHandler :: chat_handler where
  "emptyToolCallsHandler =
     \<lparr> client =
         \<lparr> create_completion =
             (\<lambda>rq. if rq_stream rq = Some False
                   then Inr \<lparr> cp_choices =
                          [\<lparr> cc_message = \<lparr> rm_content = None, rm_tool_calls = Some [] \<rparr> \<rparr>] \<rparr>
                   else Inl (ErrorObject ''400 Bad Request'')),
           create_stream = (\<lambda>rq. Inr []) \<rparr>,
       model = ''sample-model'' \<rparr>"

section \<open>Tool execution: one result per request\<close>

lemma executeToolCalls_nth:
  "i < length reqs \<Longrightarrow> executeToolCalls ev reqs ! i = executeToolCall ev (reqs ! i)"
  by (simp add: executeToolCalls_def)

lemma executeToolCall_id: "call_id (executeToolCall ev tc) = tc_id tc"
  by (simp add: executeToolCall_def failedToolCall_def split: sum.splits)

lemma executeToolCalls_ids: "map call_id (executeToolCalls ev reqs) = map tc_id reqs"
  by (simp add: executeToolCalls_def executeToolCall_id)

lemma handleNonStreamResponse_tool_round:
  "handleNonStreamResponse this ev
      \<lparr> cp_choices = \<lparr> cc_message = \<lparr> rm_content = ct, rm_tool_calls = Some reqs \<rparr> \<rparr> # others \<rparr>
      msg hist =
   (case create_completion (client this)
           (toolResponseRequest this msg hist reqs (executeToolCalls ev reqs)) of
      Inl e \<Rightarrow> Inl e
    | Inr c \<Rightarrow>
        Inr \<lparr> tr_content = orElse (firstContent c) ''Tool results processed successfully.'',
              tr_toolCalls = Some (executeToolCalls ev reqs) \<rparr>)"
  by (simp add: handleNonStreamResponse_def generateToolResponse_def Let_def split: sum.splits)

lemma handleNonStreamResponse_no_tool_calls_field:
  "handleNonStreamResponse this ev
      \<lparr> cp_choices = \<lparr> cc_message = \<lparr> rm_content = ct, rm_tool_calls = None \<rparr> \<rparr> # others \<rparr>
      msg hist =
   Inr \<lparr> tr_content = orElse ct ''I apologize, but I encountered an issue.'', tr_toolCalls = None \<rparr>"
  by (simp add: handleNonStreamResponse_def)

lemma sample_parse_echo:
  \<open>parseArguments sampleEnv (sampleRequests ! 0) = Inr (JObject [(''v'', JNumber 1)])\<close>
  by (simp add: parseArguments_def sampleRequests_def sampleEnv_def sampleParse_def)

lemma sample_execute_echo:
  "executeTool sampleEnv (fn_name (tc_function (sampleRequests ! 0))) (JObject [(''v'', JNumber 1)])
     = Inr (JObject [(''v'', JNumber 1)])"
  by (simp add: sampleEnv_def sampleExecute_def sampleRequests_def)

lemma sample_parse_lookup:
  "parseArguments sampleEnv (sampleRequests ! 1) = Inr (JObject [])"
  by (simp add: parseArguments_def sampleRequests_def)

lemma sample_execute_lookup:
  "executeTool sampleEnv (fn_name (tc_function (sampleRequests ! 1))) (JObject [])
     = Inl (ErrorObject ''Unknown tool: lookup'')"
  by (simp add: sampleEnv_def sampleExecute_def sampleRequests_def)

text \<open>
  Claim C2. For every list of requests, \<^verbatim>\<open>executeToolCalls\<close> returns as many tool calls
  as there are requests, the one at each position with the id of the request at that
  position. A request whose executor throws yields a tool call whose result is the object
  \<^verbatim>\<open>{ error: "Failed to execute <name>: <description>" }\<close>; every request whose
  executor returns yields its result whatever the other requests did; and the turn goes
  on to its follow-up call and returns all the tool calls.
\<close>

theorem executeToolCalls_one_per_request:
  "length (executeToolCalls ev reqs) = length reqs
   \<and> map call_id (executeToolCalls ev reqs) = map tc_id reqs
   \<and> (\<forall>i < length reqs. \<forall>args e.
         parseArguments ev (reqs ! i) = Inr args
         \<and> executeTool ev (fn_name (tc_function (reqs ! i))) args = Inl e
         \<longrightarrow> call_result (executeToolCalls ev reqs ! i) =
               JObject [(''error'',
                 JString (''Failed to execute '' @ fn_name (tc_function (reqs ! i)) @ '': ''
                          @ failureDescription e))])
   \<and> (\<forall>j < length reqs. \<forall>args r.
         parseArguments ev (reqs ! j) = Inr args
         \<and> executeTool ev (fn_name (tc_function (reqs ! j))) args = Inr r
         \<longrightarrow> executeToolCalls ev reqs ! j =
               \<lparr> call_id = tc_id (reqs ! j), call_name = fn_name (tc_function (reqs ! j)),
                 call_arguments = args, call_result = r \<rparr>)
   \<and> (\<forall>c. create_completion (client this)
              (toolResponseRequest this msg hist reqs (executeToolCalls ev reqs)) = Inr c
         \<longrightarrow> (\<exists>reply. handleNonStreamResponse this ev
                \<lparr> cp_choices = [\<lparr> cc_message = \<lparr> rm_content = ct, rm_tool_calls = Some reqs \<rparr> \<rparr>] \<rparr>
                msg hist =
              Inr \<lparr> tr_content = reply, tr_toolCalls = Some (executeToolCalls ev reqs) \<rparr>))"
proof (intro conjI allI impI)
  show "length (executeToolCalls ev reqs) = length reqs"
    by (simp add: executeToolCalls_def)
  show "map call_id (executeToolCalls ev reqs) = map tc_id reqs"
    by (rule executeToolCalls_ids)
next
  fix i args e
  assume "i < length reqs"
    and "parseArguments ev (reqs ! i) = Inr args
         \<and> executeTool ev (fn_name (tc_function (reqs ! i))) args = Inl e"
  then show "call_result (executeToolCalls ev reqs ! i) =
      JObject [(''error'',
        JString (''Failed to execute '' @ fn_name (tc_function (reqs ! i)) @ '': ''
                 @ failureDescription e))]"
    by (simp add: executeToolCalls_nth executeToolCall_def failedToolCall_def)
next
  fix j args r
  assume "j < length reqs"
    and "parseArguments ev (reqs ! j) = Inr args
         \<and> executeTool ev (fn_name (tc_function (reqs ! j))) args = Inr r"
  then show "executeToolCalls ev reqs ! j =
      \<lparr> call_id = tc_id (reqs ! j), call_name = fn_name (tc_function (reqs ! j)),
        call_arguments = args, call_result = r \<rparr>"
    by (simp add: executeToolCalls_nth executeToolCall_def)
next
  fix c
  assume "create_completion (client this)
            (toolResponseRequest this msg hist reqs (executeToolCalls ev reqs)) = Inr c"
  then show "\<exists>reply. handleNonStreamResponse this ev
        \<lparr> cp_choices = [\<lparr> cc_message = \<lparr> rm_content = ct, rm_tool_calls = Some reqs \<rparr> \<rparr>] \<rparr>
        msg hist =
      Inr \<lparr> tr_content = reply, tr_toolCalls = Some (executeToolCalls ev reqs) \<rparr>"
    by (simp add: handleNonStreamResponse_tool_round)
qed

text \<open>
  The theorem at two requests: \<^verbatim>\<open>echo\<close> returns, \<^verbatim>\<open>lookup\<close> is not in the registry
  and throws. Both tool calls are there, the second with the error, and the turn returns
  them with the reply of the follow-up call.
\<close>

theorem executeToolCalls_one_per_request_witness:
  \<open>(1::nat) < length sampleRequests
   \<and> parseArguments sampleEnv (sampleRequests ! 1) = Inr (JObject [])
   \<and> executeTool sampleEnv (fn_name (tc_function (sampleRequests ! 1))) (JObject [])
       = Inl (ErrorObject ''Unknown tool: lookup'')
   \<and> call_result (executeToolCalls sampleEnv sampleRequests ! 1) =
       JObject [(''error'', JString ''Failed to execute lookup: Unknown tool: lookup'')]
   \<and> (0::nat) < length sampleRequests
   \<and> parseArguments sampleEnv (sampleRequests ! 0) = Inr (JObject [(''v'', JNumber 1)])
   \<and> executeTool sampleEnv (fn_name (tc_function (sampleRequests ! 0))) (JObject [(''v'', JNumber 1)])
       = Inr (JObject [(''v'', JNumber 1)])
   \<and> executeToolCalls sampleEnv sampleRequests ! 0 =
       \<lparr> call_id = ''call_a'', call_name = ''echo'',
         call_arguments = JObject [(''v'', JNumber 1)], call_result = JObject [(''v'', JNumber 1)] \<rparr>
   \<and> map call_id (executeToolCalls sampleEnv sampleRequests) = [''call_a'', ''call_b'']
   \<and> create_completion (client sampleHandler)
        (toolResponseRequest sampleHandler ''hello'' ([] :: message list) sampleRequests
           (executeToolCalls sampleEnv sampleRequests)) = Inr (contentCompletion ''Done.'')
   \<and> (\<exists>reply. handleNonStreamResponse sampleHandler sampleEnv
        \<lparr> cp_choices = [\<lparr> cc_message = \<lparr> rm_content = None,
                                           rm_tool_calls = Some sampleRequests \<rparr> \<rparr>] \<rparr>
        ''hello'' ([] :: message list) =
      Inr \<lparr> tr_content = reply,
            tr_toolCalls = Some (executeToolCalls sampleEnv sampleRequests) \<rparr>)\<close>
proof -
  note T = executeToolCalls_one_per_request
             [of sampleEnv sampleRequests sampleHandler "''hello''" "[] :: message list" None]
  have l1: "(1::nat) < length sampleRequests" and l0: "(0::nat) < length sampleRequests"
    by (simp_all add: sampleRequests_def)
  note p1 = sample_parse_lookup and x1 = sample_execute_lookup
  note p0 = sample_parse_echo and x0 = sample_execute_echo
  have r1: "call_result (executeToolCalls sampleEnv sampleRequests ! 1) =
      JObject [(''error'',
        JString (''Failed to execute '' @ fn_name (tc_function (sampleRequests ! 1)) @ '': ''
                 @ failureDescription (ErrorObject ''Unknown tool: lookup'')))]"
    using T l1 p1 x1 by blast
  have r0: "executeToolCalls sampleEnv sampleRequests ! 0 =
      \<lparr> call_id = tc_id (sampleRequests ! 0), call_name = fn_name (tc_function (sampleRequests ! 0)),
        call_arguments = JObject [(''v'', JNumber 1)], call_result = JObject [(''v'', JNumber 1)] \<rparr>"
    using T l0 p0 x0 by blast
  have ids: "map call_id (executeToolCalls sampleEnv sampleRequests) = map tc_id sampleRequests"
    using T by blast
  have f: "create_completion (client sampleHandler)
        (toolResponseRequest sampleHandler ''hello'' ([] :: message list) sampleRequests
           (executeToolCalls sampleEnv sampleRequests)) = Inr (contentCompletion ''Done.'')"
    by (simp add: sampleHandler_def sampleClient_def)
  have t: "\<exists>reply. handleNonStreamResponse sampleHandler sampleEnv
        \<lparr> cp_choices = [\<lparr> cc_message = \<lparr> rm_content = None,
                                           rm_tool_calls = Some sampleRequests \<rparr> \<rparr>] \<rparr>
        ''hello'' ([] :: message list) =
      Inr \<lparr> tr_content = reply, tr_toolCalls = Some (executeToolCalls sampleEnv sampleRequests) \<rparr>"
    using T f by blast
  have r1': "call_result (executeToolCalls sampleEnv sampleRequests ! 1) =
       JObject [(''error'', JString ''Failed to execute lookup: Unknown tool: lookup'')]"
    using r1 by (simp add: sampleRequests_def)
  have r0': "executeToolCalls sampleEnv sampleRequests ! 0 =
       \<lparr> call_id = ''call_a'', call_name = ''echo'',
         call_arguments = JObject [(''v'', JNumber 1)], call_result = JObject [(''v'', JNumber 1)] \<rparr>"
    using r0 by (simp add: sampleRequests_def)
  have ids': "map call_id (executeToolCalls sampleEnv sampleRequests) = [''call_a'', ''call_b'']"
    using ids by (simp add: sampleRequests_def)
  show ?thesis
    using l1 p1 x1 r1' l0 p0 x0 r0' ids' f t by blast
qed

text \<open>
  Claim C10. A request whose arguments do not parse, or whose executor throws, is
  recorded with its own id and name, with the empty object as arguments (also when the
  arguments had parsed before the executor threw) and with the result
  \<^verbatim>\<open>{ error: "Failed to execute <name>: <message>" }\<close>, the message being that of the
  thrown \<^verbatim>\<open>Error\<close>, or \<^verbatim>\<open>Unknown error\<close> for a thrown value that is no \<^verbatim>\<open>Error\<close>.
\<close>

theorem failed_tool_call_recorded:
  "\<forall>i < length reqs.
     (\<forall>m. parseArguments ev (reqs ! i) = Inl m
        \<longrightarrow> executeToolCalls ev reqs ! i =
              \<lparr> call_id = tc_id (reqs ! i), call_name = fn_name (tc_function (reqs ! i)),
                call_arguments = JObject [],
                call_result = JObject [(''error'',
                  JString (''Failed to execute '' @ fn_name (tc_function (reqs ! i)) @ '': '' @ m))] \<rparr>)
     \<and> (\<forall>args m. parseArguments ev (reqs ! i) = Inr args
              \<and> executeTool ev (fn_name (tc_function (reqs ! i))) args = Inl (ErrorObject m)
        \<longrightarrow> executeToolCalls ev reqs ! i =
              \<lparr> call_id = tc_id (reqs ! i), call_name = fn_name (tc_function (reqs ! i)),
                call_arguments = JObject [],
                call_result = JObject [(''error'',
                  JString (''Failed to execute '' @ fn_name (tc_function (reqs ! i)) @ '': '' @ m))] \<rparr>)
     \<and> (\<forall>args. parseArguments ev (reqs ! i) = Inr args
              \<and> executeTool ev (fn_name (tc_function (reqs ! i))) args = Inl OtherThrown
        \<longrightarrow> executeToolCalls ev reqs ! i =
              \<lparr> call_id = tc_id (reqs ! i), call_name = fn_name (tc_function (reqs ! i)),
                call_arguments = JObject [],
                call_result = JObject [(''error'',
                  JString (''Failed to execute '' @ fn_name (tc_function (reqs ! i)) @ '': ''
                           @ ''Unknown error''))] \<rparr>)"
  by (simp add: executeToolCalls_nth executeToolCall_def failedToolCall_def)

text \<open>
  The theorem at three failing requests: the executor of \<^verbatim>\<open>lookup\<close> throws after its
  arguments parsed, the arguments of \<^verbatim>\<open>echo\<close> are cut short, \<^verbatim>\<open>crash\<close> throws a value
  that is no \<^verbatim>\<open>Error\<close>.
\<close>

theorem failed_tool_call_recorded_witness:
  \<open>(0::nat) < length sampleFailing
   \<and> parseArguments sampleEnv (sampleFailing ! 0) = Inr (JObject [(''q'', JString ''x'')])
   \<and> executeTool sampleEnv (fn_name (tc_function (sampleFailing ! 0))) (JObject [(''q'', JString ''x'')])
       = Inl (ErrorObject ''Unknown tool: lookup'')
   \<and> executeToolCalls sampleEnv sampleFailing ! 0 =
       \<lparr> call_id = ''call_c'', call_name = ''lookup'', call_arguments = JObject [],
         call_result = JObject [(''error'', JString ''Failed to execute lookup: Unknown tool: lookup'')] \<rparr>
   \<and> (1::nat) < length sampleFailing
   \<and> parseArguments sampleEnv (sampleFailing ! 1) = Inl ''Unexpected end of JSON input''
   \<and> executeToolCalls sampleEnv sampleFailing ! 1 =
       \<lparr> call_id = ''call_d'', call_name = ''echo'', call_arguments = JObject [],
         call_result = JObject [(''error'',
           JString ''Failed to execute echo: Unexpected end of JSON input'')] \<rparr>
   \<and> (2::nat) < length sampleFailing
   \<and> parseArguments sampleEnv (sampleFailing ! 2) = Inr (JObject [])
   \<and> executeTool sampleEnv (fn_name (tc_function (sampleFailing ! 2))) (JObject []) = Inl OtherThrown
   \<and> executeToolCalls sampleEnv sampleFailing ! 2 =
       \<lparr> call_id = ''call_e'', call_name = ''crash'', call_arguments = JObject [],
         call_result = JObject [(''error'', JString ''Failed to execute crash: Unknown error'')] \<rparr>\<close>
proof -
  note T = failed_tool_call_recorded [of sampleFailing sampleEnv]
  have l0: "(0::nat) < length sampleFailing" and l1: "(1::nat) < length sampleFailing"
    and l2: "(2::nat) < length sampleFailing"
    by (simp_all add: sampleFailing_def)
  have p0: \<open>parseArguments sampleEnv (sampleFailing ! 0) = Inr (JObject [(''q'', JString ''x'')])\<close>
    by (simp add: parseArguments_def sampleFailing_def sampleEnv_def sampleParse_def)
  have x0: "executeTool sampleEnv (fn_name (tc_function (sampleFailing ! 0)))
              (JObject [(''q'', JString ''x'')]) = Inl (ErrorObject ''Unknown tool: lookup'')"
    by (simp add: sampleFailing_def sampleEnv_def sampleExecute_def)
  have p1: "parseArguments sampleEnv (sampleFailing ! 1) = Inl ''Unexpected end of JSON input''"
    by (simp add: parseArguments_def sampleFailing_def sampleEnv_def sampleParse_def)
  have p2: "parseArguments sampleEnv (sampleFailing ! 2) = Inr (JObject [])"
    by (simp add: parseArguments_def sampleFailing_def)
  have x2: "executeTool sampleEnv (fn_name (tc_function (sampleFailing ! 2))) (JObject [])
              = Inl OtherThrown"
    by (simp add: sampleFailing_def sampleEnv_def sampleExecute_def)
  have r0: "executeToolCalls sampleEnv sampleFailing ! 0 =
      \<lparr> call_id = tc_id (sampleFailing ! 0), call_name = fn_name (tc_function (sampleFailing ! 0)),
        call_arguments = JObject [],
        call_result = JObject [(''error'',
          JString (''Failed to execute '' @ fn_name (tc_function (sampleFailing ! 0)) @ '': ''
                   @ ''Unknown tool: lookup''))] \<rparr>"
    using T l0 p0 x0 by blast
  have r1: "executeToolCalls sampleEnv sampleFailing ! 1 =
      \<lparr> call_id = tc_id (sampleFailing ! 1), call_name = fn_name (tc_function (sampleFailing ! 1)),
        call_arguments = JObject [],
        call_result = JObject [(''error'',
          JString (''Failed to execute '' @ fn_name (tc_function (sampleFailing ! 1)) @ '': ''
                   @ ''Unexpected end of JSON input''))] \<rparr>"
    using T l1 p1 by blast
  have r2: "executeToolCalls sampleEnv sampleFailing ! 2 =
      \<lparr> call_id = tc_id (sampleFailing ! 2), call_name = fn_name (tc_function (sampleFailing ! 2)),
        call_arguments = JObject [],
        call_result = JObject [(''error'',
          JString (''Failed to execute '' @ fn_name (tc_function (sampleFailing ! 2)) @ '': ''
                   @ ''Unknown error''))] \<rparr>"
    using T l2 p2 x2 by blast
  have r0': "executeToolCalls sampleEnv sampleFailing ! 0 =
       \<lparr> call_id = ''call_c'', call_name = ''lookup'', call_arguments = JObject [],
         call_result = JObject [(''error'', JString ''Failed to execute lookup: Unknown tool: lookup'')] \<rparr>"
    using r0 by (simp add: sampleFailing_def)
  have r1': "executeToolCalls sampleEnv sampleFailing ! 1 =
       \<lparr> call_id = ''call_d'', call_name = ''echo'', call_arguments = JObject [],
         call_result = JObject [(''error'',
           JString ''Failed to execute echo: Unexpected end of JSON input'')] \<rparr>"
    using r1 by (simp add: sampleFailing_def)
  have r2': "executeToolCalls sampleEnv sampleFailing ! 2 =
       \<lparr> call_id = ''call_e'', call_name = ''crash'', call_arguments = JObject [],
         call_result = JObject [(''error'', JString ''Failed to execute crash: Unknown error'')] \<rparr>"
    using r2 by (simp add: sampleFailing_def)
  show ?thesis
    using l0 p0 x0 r0' l1 p1 r1' l2 p2 x2 r2' by blast
qed

section \<open>The prompt builder\<close>

text \<open>
  Claim C3. For every user message and every history, the prompt builder returns
  \<open>length history + 2\<close> messages: first the system message with the fixed instruction
  text, the same on every call; then the history messages, in their order, each with its
  role and content; last the user message with the latest text.
\<close>

theorem buildConversationMessages_layout:
  "length (buildConversationMessages this userMessage history) = length history + 2
   \<and> hd (buildConversationMessages this userMessage history) =
       \<lparr> cm_role = System, cm_content = Some systemPrompt,
         cm_tool_calls = None, cm_tool_call_id = None \<rparr>
   \<and> hd (buildConversationMessages this userMessage history) =
       hd (buildConversationMessages this' userMessage' history')
   \<and> butlast (tl (buildConversationMessages this userMessage history)) =
       map (\<lambda>m. \<lparr> cm_role = role m, cm_content = content m,
                   cm_tool_calls = None, cm_tool_call_id = None \<rparr>) history
   \<and> last (buildConversationMessages this userMessage history) =
       \<lparr> cm_role = User, cm_content = Some userMessage,
         cm_tool_calls = None, cm_tool_call_id = None \<rparr>"
  by (simp add: buildConversationMessages_def butlast_append historyEntry_def)

text \<open>
  Claim C9. The prompt builder is deterministic: its output is a function of the user
  message and the history alone. The state of the handler it is a method of (the client,
  the model that \<^verbatim>\<open>updateModel\<close> changes between turns) has no influence on it, and it
  reads no clock and no other part of the environment.
\<close>

theorem buildConversationMessages_deterministic:
  "buildConversationMessages this userMessage history =
     buildConversationMessages this' userMessage history
   \<and> buildConversationMessages (updateModel this newModel) userMessage history =
     buildConversationMessages this userMessage history"
  by (simp add: buildConversationMessages_def)

section \<open>Faults of the stream\<close>

lemma consumeStream_fault:
  "\<exists>e'. consumeStream ev onChunk k st (before @ Raise e # rest) = Inl e'"
proof (induction before arbitrary: k st)
  case Nil
  show ?case by simp
next
  case (Cons x xs)
  show ?case
  proof (cases x)
    case (Chunk c)
    then show ?thesis using Cons.IH by (simp split: sum.splits)
  next
    case (Raise e0)
    then show ?thesis by simp
  qed
qed

text \<open>
  Claim C5. In streaming mode, when the stream raises a fault at any point of the
  iteration, whatever it delivered before, \<^verbatim>\<open>processMessage\<close> fails with the error
  \<^verbatim>\<open>Stream processing failed\<close>: the turn has no result, not even a partial one.
\<close>

theorem stream_fault_fails_turn:
  assumes "getToolDefinitions ev = Inr toolDefinitions"
    and "create_stream (client this)
           (primaryRequest this (buildConversationMessages this message history)
              toolDefinitions True) = Inr (before @ Raise e # rest)"
  shows "processMessage this ev message history (Some onChunk) =
           Inl (ErrorObject ''Stream processing failed'')"
proof -
  obtain e' where "consumeStream ev onChunk 0 initialState (before @ Raise e # rest) = Inl e'"
    using consumeStream_fault by blast
  then show ?thesis
    using assms by (simp add: processMessage_def handleStreamResponse_def)
qed

text \<open>The theorem at a stream that faults after the fragment \<^verbatim>\<open>Hel\<close>.\<close>

theorem stream_fault_fails_turn_witness:
  "getToolDefinitions sampleEnv = Inr []
   \<and> create_stream (client faultyHandler)
        (primaryRequest faultyHandler
           (buildConversationMessages faultyHandler ''hello'' ([] :: message list)) [] True) =
       Inr ([contentChunk ''Hel''] @ Raise (ErrorObject ''socket hang up'') # [contentChunk ''lo''])
   \<and> processMessage faultyHandler sampleEnv ''hello'' ([] :: message list) (Some quietSink) =
       Inl (ErrorObject ''Stream processing failed'')"
proof -
  have g: "getToolDefinitions sampleEnv = Inr []"
    by (simp add: sampleEnv_def)
  have s: "create_stream (client faultyHandler)
        (primaryRequest faultyHandler
           (buildConversationMessages faultyHandler ''hello'' ([] :: message list)) [] True) =
       Inr ([contentChunk ''Hel''] @ Raise (ErrorObject ''socket hang up'') # [contentChunk ''lo''])"
    by (simp add: faultyHandler_def)
  have "processMessage faultyHandler sampleEnv ''hello'' ([] :: message list) (Some quietSink) =
       Inl (ErrorObject ''Stream processing failed'')"
    by (rule stream_fault_fails_turn [OF g s])
  with g s show ?thesis by blast
qed

section \<open>Tool calls in the turn result\<close>

lemma mergeToolCalls_length:
  "i \<le> length acc \<Longrightarrow>
   length (mergeToolCalls ev k acc i ds) = max (length acc) (i + length ds)"
  by (induction ds arbitrary: acc i) auto

lemma processChunk_accumulated:
  "processChunk ev onChunk k st c = Inr st' \<Longrightarrow>
   accumulatedToolCalls st' =
     mergeToolCalls ev k (accumulatedToolCalls st) 0 (toolCallFragments c)"
  by (auto simp: processChunk_def toolCallFragments_def Let_def
           split: list.splits option.splits sum.splits if_splits)

lemma consumeStream_no_requests:
  "consumeStream ev onChunk k st stream = Inr st' \<Longrightarrow>
   (accumulatedToolCalls st' = []) =
     (accumulatedToolCalls st = [] \<and> \<not> list_ex (\<lambda>c. toolCallFragments c \<noteq> []) (chunksOf stream))"
proof (induction stream arbitrary: k st)
  case Nil
  then show ?case by simp
next
  case (Cons x xs)
  show ?case
  proof (cases x)
    case (Raise e)
    with Cons.prems show ?thesis by simp
  next
    case (Chunk c)
    with Cons.prems obtain st1 where
      a: "processChunk ev onChunk k st c = Inr st1" and
      b: "consumeStream ev onChunk (Suc k) st1 xs = Inr st'"
      by (auto split: sum.splits)
    have "length (accumulatedToolCalls st1) =
            max (length (accumulatedToolCalls st)) (length (toolCallFragments c))"
      using processChunk_accumulated [OF a] by (simp add: mergeToolCalls_length)
    then have "(accumulatedToolCalls st1 = []) =
            (accumulatedToolCalls st = [] \<and> toolCallFragments c = [])"
      by (metis length_0_conv max_nat.eq_neutr_iff)
    with Cons.IH [OF b] Chunk show ?thesis by auto
  qed
qed

lemma consumeStream_content:
  "\<forall>f \<in> set fragments. onChunk f = None \<Longrightarrow>
   consumeStream ev onChunk k st (map contentChunk fragments) =
     Inr (st\<lparr> fullContent := fullContent st @ concat fragments,
             forwarded := forwarded st @ filter (\<lambda>f. f \<noteq> []) fragments \<rparr>)"
proof (induction fragments arbitrary: k st)
  case Nil
  show ?case by simp
next
  case (Cons f fs)
  have p: "processChunk ev onChunk k st
             \<lparr> ck_choices = [\<lparr> ch_delta = \<lparr> d_content = Some f, d_tool_calls = None \<rparr> \<rparr>] \<rparr> =
           Inr (if f \<noteq> [] then st\<lparr> fullContent := fullContent st @ f,
                                    forwarded := forwarded st @ [f] \<rparr> else st)"
    using Cons.prems by (simp add: processChunk_def)
  show ?case
    using Cons.prems Cons.IH p by (simp add: contentChunk_def)
qed

text \<open>
  Claim C6. The tool calls of a turn result are there, and not the empty list, exactly
  when the model requested a tool call in the turn: in the blocking branch, when the
  response carries a request; in the streaming branch, when a chunk of the stream carries
  a tool-call fragment.
\<close>

theorem toolCalls_present_iff_requested:
  "(handleNonStreamResponse this ev completion message history = Inr r
      \<longrightarrow> (hasToolCalls r \<longleftrightarrow> requestedToolCalls completion \<noteq> []))
   \<and> (handleStreamResponse this ev stream message history onChunk = Inr r'
      \<longrightarrow> (hasToolCalls r' \<longleftrightarrow> list_ex (\<lambda>c. toolCallFragments c \<noteq> []) (chunksOf stream)))"
proof (intro conjI impI)
  assume "handleNonStreamResponse this ev completion message history = Inr r"
  then show "hasToolCalls r \<longleftrightarrow> requestedToolCalls completion \<noteq> []"
    by (auto simp: handleNonStreamResponse_def requestedToolCalls_def hasToolCalls_def
                   executeToolCalls_def Let_def
             split: list.splits option.splits sum.splits)
next
  assume h: "handleStreamResponse this ev stream message history onChunk = Inr r'"
  then obtain st where c: "consumeStream ev onChunk 0 initialState stream = Inr st"
    by (auto simp: handleStreamResponse_def split: sum.splits)
  have e: "(accumulatedToolCalls st = []) =
           (\<not> list_ex (\<lambda>c. toolCallFragments c \<noteq> []) (chunksOf stream))"
    using consumeStream_no_requests [OF c] by (simp add: initialState_def)
  show "hasToolCalls r' \<longleftrightarrow> list_ex (\<lambda>c. toolCallFragments c \<noteq> []) (chunksOf stream)"
    using h c e
    by (auto simp: handleStreamResponse_def hasToolCalls_def executeToolCalls_def Let_def
             split: sum.splits if_splits)
qed

text \<open>
  The theorem at a blocking response that requests two tool calls, and at a stream of two
  content fragments that requests none.
\<close>

theorem toolCalls_present_iff_requested_witness:
  "handleNonStreamResponse sampleHandler sampleEnv
      \<lparr> cp_choices = [\<lparr> cc_message = \<lparr> rm_content = None,
                                         rm_tool_calls = Some sampleRequests \<rparr> \<rparr>] \<rparr>
      ''hello'' ([] :: message list) =
     Inr \<lparr> tr_content = ''Done.'',
           tr_toolCalls = Some (executeToolCalls sampleEnv sampleRequests) \<rparr>
   \<and> hasToolCalls \<lparr> tr_content = ''Done.'',
                    tr_toolCalls = Some (executeToolCalls sampleEnv sampleRequests) \<rparr>
   \<and> handleStreamResponse sampleHandler sampleEnv (map contentChunk [''Hel'', ''lo''])
      ''hello'' ([] :: message list) quietSink =
     Inr \<lparr> tr_content = ''Hello'', tr_toolCalls = None \<rparr>
   \<and> \<not> list_ex (\<lambda>c. toolCallFragments c \<noteq> []) (chunksOf (map contentChunk [''Hel'', ''lo'']))"
proof -
  let ?C = "\<lparr> cp_choices = [\<lparr> cc_message = \<lparr> rm_content = None,
                                              rm_tool_calls = Some sampleRequests \<rparr> \<rparr>] \<rparr>"
  let ?R = "\<lparr> tr_content = ''Done.'',
              tr_toolCalls = Some (executeToolCalls sampleEnv sampleRequests) \<rparr>"
  let ?S = "map contentChunk [''Hel'', ''lo'']"
  let ?R' = "\<lparr> tr_content = ''Hello'', tr_toolCalls = None \<rparr>"
  note T = toolCalls_present_iff_requested
             [of sampleHandler sampleEnv ?C "''hello''" "[] :: message list" ?R ?S quietSink ?R']
  have b: "handleNonStreamResponse sampleHandler sampleEnv ?C ''hello'' ([] :: message list) = Inr ?R"
    by (simp add: handleNonStreamResponse_tool_round sampleHandler_def sampleClient_def
          contentCompletion_def firstContent_def)
  have q: "requestedToolCalls ?C \<noteq> []"
    by (simp add: requestedToolCalls_def sampleRequests_def)
  have "consumeStream sampleEnv quietSink 0 initialState ?S =
          Inr (initialState\<lparr> fullContent := fullContent initialState @ concat [''Hel'', ''lo''],
                 forwarded := forwarded initialState @ filter (\<lambda>f. f \<noteq> []) [''Hel'', ''lo''] \<rparr>)"
    by (rule consumeStream_content) (simp add: quietSink_def)
  then have s: "handleStreamResponse sampleHandler sampleEnv ?S ''hello'' ([] :: message list)
                  quietSink = Inr ?R'"
    by (simp add: handleStreamResponse_def initialState_def)
  have n: "\<not> hasToolCalls ?R'"
    by (simp add: hasToolCalls_def)
  have h: "hasToolCalls ?R"
    using T b q by blast
  have f: "\<not> list_ex (\<lambda>c. toolCallFragments c \<noteq> []) (chunksOf ?S)"
    using T s n by blast
  show ?thesis
    using b h s f by blast
qed

section \<open>A response without tool calls\<close>

text \<open>
  Claim C7, at a blocking response with no content and an empty list of tool calls. The
  claim asks for a turn that does not fail and answers with the fallback text. The guard
  of \<^verbatim>\<open>handleNonStreamResponse\<close> tests the presence of the field \<^verbatim>\<open>tool_calls\<close>, not
  the length of the list (as \<^verbatim>\<open>handleStreamResponse\<close> does for its accumulator), so the
  turn makes the follow-up call with no tool call at all; here that call is rejected and
  the turn fails.
\<close>

theorem processMessage_empty_tool_calls_list:
  "processMessage emptyToolCallsHandler sampleEnv ''hello'' ([] :: message list) None =
     Inl (ErrorObject ''400 Bad Request'')"
  by (simp add: processMessage_def sampleEnv_def emptyToolCallsHandler_def primaryRequest_def
        handleNonStreamResponse_def executeToolCalls_def generateToolResponse_def
        toolResponseRequest_def)

section \<open>Streaming and blocking on the same content\<close>

text \<open>
  Claim C8, as amended. For every response that carries a non-empty content text and no
  \<^verbatim>\<open>tool_calls\<close> field, delivered to the streaming branch as fragments whose
  concatenation is the text (the sink returning normally on each) and to the blocking
  branch whole, \<^verbatim>\<open>processMessage\<close> returns in both modes a turn result whose content
  is the text, without tool calls.
\<close>

theorem streaming_blocking_same_content:
  assumes "getToolDefinitions ev = Inr toolDefinitions"
    and "create_stream (client this)
           (primaryRequest this (buildConversationMessages this message history)
              toolDefinitions True) = Inr (map contentChunk fragments)"
    and "create_completion (client this)
           (primaryRequest this (buildConversationMessages this message history)
              toolDefinitions False) = Inr (contentCompletion (concat fragments))"
    and "concat fragments \<noteq> []"
    and "\<forall>f \<in> set fragments. onChunk f = None"
  shows "processMessage this ev message history (Some onChunk) =
           Inr \<lparr> tr_content = concat fragments, tr_toolCalls = None \<rparr>
         \<and> processMessage this ev message history None =
           Inr \<lparr> tr_content = concat fragments, tr_toolCalls = None \<rparr>"
proof
  show "processMessage this ev message history (Some onChunk) =
           Inr \<lparr> tr_content = concat fragments, tr_toolCalls = None \<rparr>"
    using assms(1,2) consumeStream_content [OF assms(5), of ev 0 initialState]
    by (simp add: processMessage_def handleStreamResponse_def initialState_def)
  show "processMessage this ev message history None =
           Inr \<lparr> tr_content = concat fragments, tr_toolCalls = None \<rparr>"
    using assms(1,3,4)
    by (simp add: processMessage_def contentCompletion_def
          handleNonStreamResponse_no_tool_calls_field)
qed

text \<open>The theorem at the text \<^verbatim>\<open>Hello\<close>, streamed as \<^verbatim>\<open>Hel\<close> and \<^verbatim>\<open>lo\<close>.\<close>

theorem streaming_blocking_same_content_witness:
  "getToolDefinitions sampleEnv = Inr []
   \<and> create_stream (client helloHandler)
        (primaryRequest helloHandler
           (buildConversationMessages helloHandler ''hello'' ([] :: message list)) [] True) =
       Inr (map contentChunk [''Hel'', ''lo''])
   \<and> create_completion (client helloHandler)
        (primaryRequest helloHandler
           (buildConversationMessages helloHandler ''hello'' ([] :: message list)) [] False) =
       Inr (contentCompletion (concat [''Hel'', ''lo'']))
   \<and> concat [''Hel'', ''lo''] \<noteq> []
   \<and> quietSink ''Hel'' = None \<and> quietSink ''lo'' = None
   \<and> processMessage helloHandler sampleEnv ''hello'' ([] :: message list) (Some quietSink) =
       Inr \<lparr> tr_content = ''Hello'', tr_toolCalls = None \<rparr>
   \<and> processMessage helloHandler sampleEnv ''hello'' ([] :: message list) None =
       Inr \<lparr> tr_content = ''Hello'', tr_toolCalls = None \<rparr>"
proof -
  have g: "getToolDefinitions sampleEnv = Inr []"
    by (simp add: sampleEnv_def)
  have s: "create_stream (client helloHandler)
        (primaryRequest helloHandler
           (buildConversationMessages helloHandler ''hello'' ([] :: message list)) [] True) =
       Inr (map contentChunk [''Hel'', ''lo''])"
    by (simp add: helloHandler_def)
  have c: "create_completion (client helloHandler)
        (primaryRequest helloHandler
           (buildConversationMessages helloHandler ''hello'' ([] :: message list)) [] False) =
       Inr (contentCompletion (concat [''Hel'', ''lo'']))"
    by (simp add: helloHandler_def)
  have n: "concat [''Hel'', ''lo''] \<noteq> []"
    by simp
  have q: "\<forall>f \<in> set [''Hel'', ''lo'']. quietSink f = None"
    by (simp add: quietSink_def)
  have r: "processMessage helloHandler sampleEnv ''hello'' ([] :: message list) (Some quietSink) =
           Inr \<lparr> tr_content = concat [''Hel'', ''lo''], tr_toolCalls = None \<rparr>
         \<and> processMessage helloHandler sampleEnv ''hello'' ([] :: message list) None =
           Inr \<lparr> tr_content = concat [''Hel'', ''lo''], tr_toolCalls = None \<rparr>"
    by (rule streaming_blocking_same_content [OF g s c n q])
  have e: "concat [''Hel'', ''lo''] = ''Hello''"
    by simp
  show ?thesis
    using g s c n q r unfolding e by simp
qed

text \<open>
  Claim C8 as stated fails at the empty content text: the streaming branch returns the
  empty text it accumulated, the blocking branch replaces an empty content by its fallback
  text.
\<close>

theorem streaming_blocking_empty_content_differ:
  "processMessage emptyContentHandler sampleEnv ''hello'' ([] :: message list) (Some quietSink) =
     Inr \<lparr> tr_content = [], tr_toolCalls = None \<rparr>
   \<and> processMessage emptyContentHandler sampleEnv ''hello'' ([] :: message list) None =
     Inr \<lparr> tr_content = ''I apologize, but I encountered an issue.'', tr_toolCalls = None \<rparr>
   \<and> processMessage emptyContentHandler sampleEnv ''hello'' ([] :: message list) (Some quietSink) \<noteq>
     processMessage emptyContentHandler sampleEnv ''hello'' ([] :: message list) None"
  by (simp add: processMessage_def sampleEnv_def emptyContentHandler_def contentChunk_def
        contentCompletion_def handleNonStreamResponse_def handleStreamResponse_def
        processChunk_def initialState_def)

section \<open>The follow-up call\<close>

lemma toolCallIdFor_executed:
  "i < length reqs \<Longrightarrow>
   toolCallIdFor reqs i (executeToolCall ev (reqs ! i)) = tc_id (reqs ! i)"
  by (simp add: toolCallIdFor_def executeToolCall_id)

lemma toolMessages_executed:
  "map (toolMessage reqs) (zip (executeToolCalls ev reqs) [0 ..< length (executeToolCalls ev reqs)]) =
   map (\<lambda>(req, call).
          \<lparr> cm_role = Tool, cm_content = Some (stringify (call_result call)),
            cm_tool_calls = None, cm_tool_call_id = Some (tc_id req) \<rparr>)
       (zip reqs (executeToolCalls ev reqs))"
  by (rule nth_equalityI)
     (simp_all add: executeToolCalls_def toolMessage_def toolCallIdFor_executed)

lemma handleStreamResponse_tool_round:
  "consumeStream ev onChunk 0 initialState stream = Inr st \<Longrightarrow>
   accumulatedToolCalls st \<noteq> [] \<Longrightarrow>
   handleStreamResponse this ev stream msg hist onChunk =
   (case create_completion (client this)
           (toolResponseRequest this msg hist (accumulatedToolCalls st)
              (executeToolCalls ev (accumulatedToolCalls st))) of
      Inl e \<Rightarrow> Inl e
    | Inr c \<Rightarrow>
        Inr \<lparr> tr_content = orElse (firstContent c) ''Tool results processed successfully.'',
              tr_toolCalls = Some (executeToolCalls ev (accumulatedToolCalls st)) \<rparr>)"
  by (simp add: handleStreamResponse_def generateToolResponse_def Let_def split: sum.splits)

lemma consumeStream_lookupStream:
  "consumeStream sampleEnv quietSink 0 initialState lookupStream =
     Inr \<lparr> fullContent = [], accumulatedToolCalls = [lookupRequest], forwarded = [] \<rparr>"
  by (simp add: lookupStream_def fragmentChunk_def processChunk_def initialState_def
        lookupFragment1_def lookupFragment2_def lookupRequest_def newToolCall_def
        appendToolCall_def deltaName_def deltaArguments_def)

text \<open>
  Claim C4. After the tool calls of a turn were executed, the messages of the second call
  are: the short system instruction; the last three history messages (all of them when
  there are fewer); the user message; one assistant message that carries the list of
  requests as it was; and one tool message per executed tool call, in order, whose content
  is the JSON text of the call's result and whose \<^verbatim>\<open>tool_call_id\<close> is the id of the
  request it came from. The content of the turn is the content of the second call's
  response, or the text \<^verbatim>\<open>Tool results processed successfully.\<close> when that is absent or
  empty. This holds in the blocking branch for the requests of the response and in the
  streaming branch for the accumulated requests. For the request
  \<^verbatim>\<open>{name: "echo", arguments: "{\"v\":1}"}\<close> whose executor returns \<^verbatim>\<open>{v:1}\<close>, the
  content of the tool message is \<^verbatim>\<open>{"v":1}\<close>.
\<close>

theorem followUp_call_messages:
  \<open>toolResponseMessages message history reqs (executeToolCalls ev reqs) =
     \<lparr> cm_role = System,
       cm_content = Some ''You are a helpful AI assistant. Respond naturally to the tool results.'',
       cm_tool_calls = None, cm_tool_call_id = None \<rparr>
     # map (\<lambda>m. \<lparr> cm_role = role m, cm_content = content m,
                   cm_tool_calls = None, cm_tool_call_id = None \<rparr>) (sliceLast 3 history)
     @ [\<lparr> cm_role = User, cm_content = Some message,
          cm_tool_calls = None, cm_tool_call_id = None \<rparr>,
        \<lparr> cm_role = Assistant, cm_content = None,
          cm_tool_calls = Some reqs, cm_tool_call_id = None \<rparr>]
     @ map (\<lambda>(req, call).
              \<lparr> cm_role = Tool, cm_content = Some (stringify (call_result call)),
                cm_tool_calls = None, cm_tool_call_id = Some (tc_id req) \<rparr>)
           (zip reqs (executeToolCalls ev reqs))
   \<and> length (sliceLast 3 history) = min 3 (length history)
   \<and> (\<exists>earlier. history = earlier @ sliceLast 3 history)
   \<and> handleNonStreamResponse this ev
        \<lparr> cp_choices = \<lparr> cc_message = \<lparr> rm_content = ct, rm_tool_calls = Some reqs \<rparr> \<rparr> # others \<rparr>
        message history =
      (case create_completion (client this)
              \<lparr> rq_model = model this,
                rq_messages = toolResponseMessages message history reqs (executeToolCalls ev reqs),
                rq_tools = None, rq_tool_choice = None, rq_max_tokens = 4096, rq_stream = None \<rparr> of
         Inl e \<Rightarrow> Inl e
       | Inr c \<Rightarrow>
           Inr \<lparr> tr_content = orElse (firstContent c) ''Tool results processed successfully.'',
                 tr_toolCalls = Some (executeToolCalls ev reqs) \<rparr>)
   \<and> (consumeStream ev onChunk 0 initialState stream = Inr st \<and> accumulatedToolCalls st \<noteq> []
      \<longrightarrow> handleStreamResponse this ev stream message history onChunk =
          (case create_completion (client this)
                  \<lparr> rq_model = model this,
                    rq_messages = toolResponseMessages message history (accumulatedToolCalls st)
                                    (executeToolCalls ev (accumulatedToolCalls st)),
                    rq_tools = None, rq_tool_choice = None, rq_max_tokens = 4096,
                    rq_stream = None \<rparr> of
             Inl e \<Rightarrow> Inl e
           | Inr c \<Rightarrow>
               Inr \<lparr> tr_content = orElse (firstContent c) ''Tool results processed successfully.'',
                     tr_toolCalls = Some (executeToolCalls ev (accumulatedToolCalls st)) \<rparr>))
   \<and> (JSON_parse ev ''{"v":1}'' = Inr args
        \<and> executeTool ev ''echo'' args = Inr (JObject [(''v'', JNumber 1)])
      \<longrightarrow> last (toolResponseMessages message history
                  [\<lparr> tc_id = callId, tc_type = ''function'',
                      tc_function = \<lparr> fn_name = ''echo'', fn_arguments = ''{"v":1}'' \<rparr> \<rparr>]
                  (executeToolCalls ev
                     [\<lparr> tc_id = callId, tc_type = ''function'',
                         tc_function = \<lparr> fn_name = ''echo'', fn_arguments = ''{"v":1}'' \<rparr> \<rparr>])) =
          \<lparr> cm_role = Tool, cm_content = Some ''{"v":1}'',
            cm_tool_calls = None, cm_tool_call_id = Some callId \<rparr>)\<close>
proof (intro conjI impI)
  show \<open>toolResponseMessages message history reqs (executeToolCalls ev reqs) =
     \<lparr> cm_role = System,
       cm_content = Some ''You are a helpful AI assistant. Respond naturally to the tool results.'',
       cm_tool_calls = None, cm_tool_call_id = None \<rparr>
     # map (\<lambda>m. \<lparr> cm_role = role m, cm_content = content m,
                   cm_tool_calls = None, cm_tool_call_id = None \<rparr>) (sliceLast 3 history)
     @ [\<lparr> cm_role = User, cm_content = Some message,
          cm_tool_calls = None, cm_tool_call_id = None \<rparr>,
        \<lparr> cm_role = Assistant, cm_content = None,
          cm_tool_calls = Some reqs, cm_tool_call_id = None \<rparr>]
     @ map (\<lambda>(req, call).
              \<lparr> cm_role = Tool, cm_content = Some (stringify (call_result call)),
                cm_tool_calls = None, cm_tool_call_id = Some (tc_id req) \<rparr>)
           (zip reqs (executeToolCalls ev reqs))\<close>
    unfolding toolResponseMessages_def toolMessages_executed
    by (simp add: historyEntry_def)
  show "length (sliceLast 3 history) = min 3 (length history)"
    by (simp add: sliceLast_def)
  have "history = take (length history - 3) history @ sliceLast 3 history"
    by (simp add: sliceLast_def)
  then show "\<exists>earlier. history = earlier @ sliceLast 3 history" ..
  show "handleNonStreamResponse this ev
        \<lparr> cp_choices = \<lparr> cc_message = \<lparr> rm_content = ct, rm_tool_calls = Some reqs \<rparr> \<rparr> # others \<rparr>
        message history =
      (case create_completion (client this)
              \<lparr> rq_model = model this,
                rq_messages = toolResponseMessages message history reqs (executeToolCalls ev reqs),
                rq_tools = None, rq_tool_choice = None, rq_max_tokens = 4096, rq_stream = None \<rparr> of
         Inl e \<Rightarrow> Inl e
       | Inr c \<Rightarrow>
           Inr \<lparr> tr_content = orElse (firstContent c) ''Tool results processed successfully.'',
                 tr_toolCalls = Some (executeToolCalls ev reqs) \<rparr>)"
    by (simp add: handleNonStreamResponse_tool_round toolResponseRequest_def)
next
  assume "consumeStream ev onChunk 0 initialState stream = Inr st \<and> accumulatedToolCalls st \<noteq> []"
  then show "handleStreamResponse this ev stream message history onChunk =
          (case create_completion (client this)
                  \<lparr> rq_model = model this,
                    rq_messages = toolResponseMessages message history (accumulatedToolCalls st)
                                    (executeToolCalls ev (accumulatedToolCalls st)),
                    rq_tools = None, rq_tool_choice = None, rq_max_tokens = 4096,
                    rq_stream = None \<rparr> of
             Inl e \<Rightarrow> Inl e
           | Inr c \<Rightarrow>
               Inr \<lparr> tr_content = orElse (firstContent c) ''Tool results processed successfully.'',
                     tr_toolCalls = Some (executeToolCalls ev (accumulatedToolCalls st)) \<rparr>)"
    by (simp add: handleStreamResponse_tool_round toolResponseRequest_def)
next
  assume a: \<open>JSON_parse ev ''{"v":1}'' = Inr args
        \<and> executeTool ev ''echo'' args = Inr (JObject [(''v'', JNumber 1)])\<close>
  have s: \<open>stringify (JObject [(''v'', JNumber 1)]) = ''{"v":1}''\<close>
    by (simp add: quoteString_def quoteChar_def intToString_def digitChar_def natToString.simps)
  show \<open>last (toolResponseMessages message history
                  [\<lparr> tc_id = callId, tc_type = ''function'',
                      tc_function = \<lparr> fn_name = ''echo'', fn_arguments = ''{"v":1}'' \<rparr> \<rparr>]
                  (executeToolCalls ev
                     [\<lparr> tc_id = callId, tc_type = ''function'',
                         tc_function = \<lparr> fn_name = ''echo'', fn_arguments = ''{"v":1}'' \<rparr> \<rparr>])) =
          \<lparr> cm_role = Tool, cm_content = Some ''{"v":1}'',
            cm_tool_calls = None, cm_tool_call_id = Some callId \<rparr>\<close>
    using a s
    by (simp add: toolResponseMessages_def executeToolCalls_def executeToolCall_def
          parseArguments_def toolMessage_def toolCallIdFor_def)
qed

text \<open>
  The theorem at the streamed request of \<^verbatim>\<open>lookup\<close>, whose follow-up call answers
  \<^verbatim>\<open>Done.\<close>, and at the request of \<^verbatim>\<open>echo\<close> with the sample registry and parser.
\<close>

theorem followUp_call_messages_witness:
  \<open>consumeStream sampleEnv quietSink 0 initialState lookupStream =
     Inr \<lparr> fullContent = [], accumulatedToolCalls = [lookupRequest], forwarded = [] \<rparr>
   \<and> [lookupRequest] \<noteq> []
   \<and> handleStreamResponse sampleHandler sampleEnv lookupStream ''hello'' ([] :: message list)
        quietSink =
       Inr \<lparr> tr_content = ''Done.'',
             tr_toolCalls = Some (executeToolCalls sampleEnv [lookupRequest]) \<rparr>
   \<and> JSON_parse sampleEnv ''{"v":1}'' = Inr (JObject [(''v'', JNumber 1)])
   \<and> executeTool sampleEnv ''echo'' (JObject [(''v'', JNumber 1)]) = Inr (JObject [(''v'', JNumber 1)])
   \<and> last (toolResponseMessages ''hello'' ([] :: message list)
             [\<lparr> tc_id = ''call_a'', tc_type = ''function'',
                 tc_function = \<lparr> fn_name = ''echo'', fn_arguments = ''{"v":1}'' \<rparr> \<rparr>]
             (executeToolCalls sampleEnv
                [\<lparr> tc_id = ''call_a'', tc_type = ''function'',
                    tc_function = \<lparr> fn_name = ''echo'', fn_arguments = ''{"v":1}'' \<rparr> \<rparr>])) =
       \<lparr> cm_role = Tool, cm_content = Some ''{"v":1}'',
         cm_tool_calls = None, cm_tool_call_id = Some ''call_a'' \<rparr>\<close>
proof -
  let ?st = "\<lparr> fullContent = [], accumulatedToolCalls = [lookupRequest], forwarded = [] \<rparr>"
  note T = followUp_call_messages
             [of "''hello''" "[] :: message list" "[]" sampleEnv sampleHandler None "[]"
                 quietSink lookupStream ?st "JObject [(''v'', JNumber 1)]" "''call_a''"]
  note c = consumeStream_lookupStream
  have ne: "accumulatedToolCalls ?st \<noteq> []"
    by simp
  have "handleStreamResponse sampleHandler sampleEnv lookupStream ''hello'' ([] :: message list)
          quietSink =
        (case create_completion (client sampleHandler)
                \<lparr> rq_model = model sampleHandler,
                  rq_messages = toolResponseMessages ''hello'' ([] :: message list)
                                  (accumulatedToolCalls ?st)
                                  (executeToolCalls sampleEnv (accumulatedToolCalls ?st)),
                  rq_tools = None, rq_tool_choice = None, rq_max_tokens = 4096,
                  rq_stream = None \<rparr> of
           Inl e \<Rightarrow> Inl e
         | Inr c \<Rightarrow>
             Inr \<lparr> tr_content = orElse (firstContent c) ''Tool results processed successfully.'',
                   tr_toolCalls = Some (executeToolCalls sampleEnv (accumulatedToolCalls ?st)) \<rparr>)"
    using T c ne by blast
  then have h: "handleStreamResponse sampleHandler sampleEnv lookupStream ''hello''
                  ([] :: message list) quietSink =
       Inr \<lparr> tr_content = ''Done.'',
             tr_toolCalls = Some (executeToolCalls sampleEnv [lookupRequest]) \<rparr>"
    by (simp add: sampleHandler_def sampleClient_def contentCompletion_def firstContent_def)
  have p: \<open>JSON_parse sampleEnv ''{"v":1}'' = Inr (JObject [(''v'', JNumber 1)])\<close>
    by (simp add: sampleEnv_def sampleParse_def)
  have x: "executeTool sampleEnv ''echo'' (JObject [(''v'', JNumber 1)])
             = Inr (JObject [(''v'', JNumber 1)])"
    by (simp add: sampleEnv_def sampleExecute_def)
  have l: \<open>last (toolResponseMessages ''hello'' ([] :: message list)
             [\<lparr> tc_id = ''call_a'', tc_type = ''function'',
                 tc_function = \<lparr> fn_name = ''echo'', fn_arguments = ''{"v":1}'' \<rparr> \<rparr>]
             (executeToolCalls sampleEnv
                [\<lparr> tc_id = ''call_a'', tc_type = ''function'',
                    tc_function = \<lparr> fn_name = ''echo'', fn_arguments = ''{"v":1}'' \<rparr> \<rparr>])) =
       \<lparr> cm_role = Tool, cm_content = Some ''{"v":1}'',
         cm_tool_calls = None, cm_tool_call_id = Some ''call_a'' \<rparr>\<close>
    using T p x by blast
  have "[lookupRequest] \<noteq> []"
    by simp
  with c h p x l show ?thesis
    by blast
qed

section \<open>Merging tool-call fragments\<close>

lemma mergeToolCalls_nth:
  "i \<le> length acc \<Longrightarrow> j < max (length acc) (i + length ds) \<Longrightarrow>
   mergeToolCalls ev k acc i ds ! j =
     (if j < i \<or> i + length ds \<le> j then acc ! j
      else if j < length acc then appendToolCall (acc ! j) (ds ! (j - i))
      else newToolCall ev k j (ds ! (j - i)))"
proof (induction ds arbitrary: acc i)
  case Nil
  then show ?case by auto
next
  case (Cons d ds)
  let ?acc' = "if i < length acc then acc[i := appendToolCall (acc ! i) d]
               else acc @ [newToolCall ev k i d]"
  have le: "Suc i \<le> length ?acc'" using Cons.prems(1) by auto
  have len: "length ?acc' = max (length acc) (Suc i)" using Cons.prems(1) by auto
  have j: "j < max (length ?acc') (Suc i + length ds)" using Cons.prems(2) len by auto
  have ih: "mergeToolCalls ev k ?acc' (Suc i) ds ! j =
     (if j < Suc i \<or> Suc i + length ds \<le> j then ?acc' ! j
      else if j < length ?acc' then appendToolCall (?acc' ! j) (ds ! (j - Suc i))
      else newToolCall ev k j (ds ! (j - Suc i)))"
    by (rule Cons.IH [OF le j])
  have eq: "mergeToolCalls ev k acc i (d # ds) = mergeToolCalls ev k ?acc' (Suc i) ds"
    by simp
  consider "j < i" | "j = i" | "i < j"
    by linarith
  then show ?case
  proof cases
    case 1
    then show ?thesis
      unfolding eq ih using Cons.prems(1) by (auto simp: nth_append)
  next
    case 2
    then show ?thesis
      unfolding eq ih using Cons.prems(1) by (auto simp: nth_append)
  next
    case 3
    then have d: "(d # ds) ! (j - i) = ds ! (j - Suc i)"
      by (simp add: nth_Cons')
    from 3 show ?thesis
      unfolding eq ih d using Cons.prems by (auto simp: nth_append)
  qed
qed

lemma fragmentsAt_Cons:
  "fragmentsAt i (c # cs) =
     (if i < length (toolCallFragments c) then toolCallFragments c ! i # fragmentsAt i cs
      else fragmentsAt i cs)"
  by (simp add: fragmentsAt_def)

lemma fragmentsAt_Nil: "fragmentsAt i [] = []"
  by (simp add: fragmentsAt_def)

text \<open>
  The accumulator after a stream, position by position: an entry the stream found is
  folded with the fragments that arrived at its position; an entry the stream created
  comes from the first fragment at its position, folded with the later ones.
\<close>

lemma consumeStream_entries:
  "consumeStream ev onChunk k st stream = Inr st' \<Longrightarrow>
   (\<forall>i. (i < length (accumulatedToolCalls st')) =
         (i < length (accumulatedToolCalls st) \<or> fragmentsAt i (chunksOf stream) \<noteq> []))
   \<and> (\<forall>i < length (accumulatedToolCalls st).
         accumulatedToolCalls st' ! i =
           foldl appendToolCall (accumulatedToolCalls st ! i) (fragmentsAt i (chunksOf stream)))
   \<and> (\<forall>i. length (accumulatedToolCalls st) \<le> i \<and> i < length (accumulatedToolCalls st')
         \<longrightarrow> (\<exists>k'. accumulatedToolCalls st' ! i =
                 foldl appendToolCall
                   (newToolCall ev k' i (hd (fragmentsAt i (chunksOf stream))))
                   (tl (fragmentsAt i (chunksOf stream)))))"
proof (induction stream arbitrary: k st)
  case Nil
  then show ?case by (auto simp: fragmentsAt_Nil)
next
  case (Cons x xs)
  show ?case
  proof (cases x)
    case (Raise e)
    with Cons.prems show ?thesis by simp
  next
    case (Chunk c)
    with Cons.prems obtain st1 where
      a: "processChunk ev onChunk k st c = Inr st1" and
      b: "consumeStream ev onChunk (Suc k) st1 xs = Inr st'"
      by (auto split: sum.splits)
    let ?A = "accumulatedToolCalls st" and ?M = "accumulatedToolCalls st1"
    let ?R = "accumulatedToolCalls st'" and ?F = "toolCallFragments c"
    have M: "?M = mergeToolCalls ev k ?A 0 ?F"
      by (rule processChunk_accumulated [OF a])
    have lenM: "length ?M = max (length ?A) (length ?F)"
      by (simp add: M mergeToolCalls_length)
    have nthM: "?M ! j = (if length ?F \<le> j then ?A ! j
                          else if j < length ?A then appendToolCall (?A ! j) (?F ! j)
                          else newToolCall ev k j (?F ! j))"
      if "j < max (length ?A) (length ?F)" for j
      using mergeToolCalls_nth [of 0 ?A j ?F ev k] that by (simp add: M)
    note ih = Cons.IH [OF b]
    have cs: "chunksOf (x # xs) = c # chunksOf xs" by (simp add: Chunk)
    have p1: "(i < length ?R) = (i < length ?A \<or> fragmentsAt i (chunksOf (x # xs)) \<noteq> [])" for i
      using ih lenM by (auto simp: cs fragmentsAt_Cons)
    have p2: "?R ! i = foldl appendToolCall (?A ! i) (fragmentsAt i (chunksOf (x # xs)))"
      if "i < length ?A" for i
    proof -
      have "i < length ?M" using that lenM by simp
      then have "?R ! i = foldl appendToolCall (?M ! i) (fragmentsAt i (chunksOf xs))"
        using ih by blast
      moreover have "?M ! i = (if length ?F \<le> i then ?A ! i else appendToolCall (?A ! i) (?F ! i))"
        using nthM [of i] that by simp
      ultimately show ?thesis
        by (simp add: cs fragmentsAt_Cons)
    qed
    have p3: "\<exists>k'. ?R ! i =
                 foldl appendToolCall
                   (newToolCall ev k' i (hd (fragmentsAt i (chunksOf (x # xs)))))
                   (tl (fragmentsAt i (chunksOf (x # xs))))"
      if "length ?A \<le> i \<and> i < length ?R" for i
    proof (cases "i < length ?F")
      case True
      then have "i < length ?M" using lenM by simp
      then have "?R ! i = foldl appendToolCall (?M ! i) (fragmentsAt i (chunksOf xs))"
        using ih by blast
      moreover have "?M ! i = newToolCall ev k i (?F ! i)"
        using nthM [of i] that True by simp
      ultimately have "?R ! i =
                 foldl appendToolCall
                   (newToolCall ev k i (hd (fragmentsAt i (chunksOf (x # xs)))))
                   (tl (fragmentsAt i (chunksOf (x # xs))))"
        using True by (simp add: cs fragmentsAt_Cons)
      then show ?thesis ..
    next
      case False
      then have "length ?M \<le> i \<and> i < length ?R" using that lenM by simp
      then have "\<exists>k'. ?R ! i =
                 foldl appendToolCall
                   (newToolCall ev k' i (hd (fragmentsAt i (chunksOf xs))))
                   (tl (fragmentsAt i (chunksOf xs)))"
        using ih by blast
      then show ?thesis using False by (simp add: cs fragmentsAt_Cons)
    qed
    show ?thesis using p1 p2 p3 by blast
  qed
qed

lemma appendToolCall_fields:
  "tc_id (appendToolCall a d) = tc_id a"
  "tc_type (appendToolCall a d) = tc_type a"
  "fn_arguments (tc_function (appendToolCall a d)) =
     fn_arguments (tc_function a) @ orElse (deltaArguments d) []"
  "fn_name (tc_function (appendToolCall a d)) =
     (if fn_name (tc_function a) = [] then orElse (deltaName d) [] else fn_name (tc_function a))"
  by (cases "deltaName d"; cases "deltaArguments d"; simp add: appendToolCall_def Let_def)+

lemma foldl_appendToolCall_fields:
  "tc_id (foldl appendToolCall a fs) = tc_id a"
  "tc_type (foldl appendToolCall a fs) = tc_type a"
  "fn_arguments (tc_function (foldl appendToolCall a fs)) =
     fn_arguments (tc_function a) @ concat (map (\<lambda>d. orElse (deltaArguments d) []) fs)"
  "fn_name (tc_function (foldl appendToolCall a fs)) =
     firstNonEmpty (fn_name (tc_function a) # map (\<lambda>d. orElse (deltaName d) []) fs)"
  by (induction fs arbitrary: a; simp add: appendToolCall_fields)+

lemma consumeStream_positions:
  "consumeStream ev onChunk k st stream = Inr st' \<Longrightarrow>
   (i < length (accumulatedToolCalls st')) =
     (i < length (accumulatedToolCalls st) \<or> fragmentsAt i (chunksOf stream) \<noteq> [])"
  by (rule consumeStream_entries [THEN conjunct1, THEN spec])

lemma consumeStream_created:
  "consumeStream ev onChunk k st stream = Inr st' \<Longrightarrow>
   length (accumulatedToolCalls st) \<le> i \<and> i < length (accumulatedToolCalls st') \<Longrightarrow>
   \<exists>k'. accumulatedToolCalls st' ! i =
           foldl appendToolCall
             (newToolCall ev k' i (hd (fragmentsAt i (chunksOf stream))))
             (tl (fragmentsAt i (chunksOf stream)))"
  by (rule consumeStream_entries [THEN conjunct2, THEN conjunct2, THEN spec, THEN mp])

lemma stream_positions:
  assumes c: "consumeStream ev onChunk 0 initialState stream = Inr st"
  shows "(i < length (accumulatedToolCalls st)) = (fragmentsAt i (chunksOf stream) \<noteq> [])"
  using consumeStream_positions [OF c, of i] by (simp add: initialState_def)

lemma created_entry_fields:
  assumes "fs \<noteq> []"
  shows "tc_id (foldl appendToolCall (newToolCall ev k i (hd fs)) (tl fs)) =
           orElse (dtc_id (hd fs)) (''tool_'' @ natToString (Date_now ev k i) @ ''_'' @ natToString i)"
    and "fn_name (tc_function (foldl appendToolCall (newToolCall ev k i (hd fs)) (tl fs))) =
           firstNonEmpty (map (\<lambda>d. orElse (deltaName d) []) fs)"
    and "fn_arguments (tc_function (foldl appendToolCall (newToolCall ev k i (hd fs)) (tl fs))) =
           concat (map (\<lambda>d. orElse (deltaArguments d) []) fs)"
proof -
  obtain f rest where fs: "fs = f # rest" using assms by (cases fs) auto
  show "tc_id (foldl appendToolCall (newToolCall ev k i (hd fs)) (tl fs)) =
           orElse (dtc_id (hd fs)) (''tool_'' @ natToString (Date_now ev k i) @ ''_'' @ natToString i)"
    by (simp only: foldl_appendToolCall_fields) (simp add: newToolCall_def)
  show "fn_name (tc_function (foldl appendToolCall (newToolCall ev k i (hd fs)) (tl fs))) =
           firstNonEmpty (map (\<lambda>d. orElse (deltaName d) []) fs)"
    by (simp only: foldl_appendToolCall_fields) (simp add: newToolCall_def fs)
  show "fn_arguments (tc_function (foldl appendToolCall (newToolCall ev k i (hd fs)) (tl fs))) =
           concat (map (\<lambda>d. orElse (deltaArguments d) []) fs)"
    by (simp only: foldl_appendToolCall_fields) (simp add: newToolCall_def fs)
qed

lemma stream_entry:
  assumes c: "consumeStream ev onChunk 0 initialState stream = Inr st"
    and i: "i < length (accumulatedToolCalls st)"
  shows "\<exists>k'. tc_id (accumulatedToolCalls st ! i) =
                 orElse (dtc_id (hd (fragmentsAt i (chunksOf stream))))
                   (''tool_'' @ natToString (Date_now ev k' i) @ ''_'' @ natToString i)"
    and "fn_name (tc_function (accumulatedToolCalls st ! i)) =
           firstNonEmpty (map (\<lambda>d. orElse (deltaName d) []) (fragmentsAt i (chunksOf stream)))"
    and "fn_arguments (tc_function (accumulatedToolCalls st ! i)) =
           concat (map (\<lambda>d. orElse (deltaArguments d) []) (fragmentsAt i (chunksOf stream)))"
proof -
  let ?fs = "fragmentsAt i (chunksOf stream)"
  have ne: "?fs \<noteq> []"
    using stream_positions [OF c, of i] i by simp
  have "length (accumulatedToolCalls initialState) \<le> i \<and> i < length (accumulatedToolCalls st)"
    using i by (simp add: initialState_def)
  then have "\<exists>k'. accumulatedToolCalls st ! i =
               foldl appendToolCall (newToolCall ev k' i (hd ?fs)) (tl ?fs)"
    by (rule consumeStream_created [OF c])
  then obtain k' where
    e: "accumulatedToolCalls st ! i = foldl appendToolCall (newToolCall ev k' i (hd ?fs)) (tl ?fs)"
    by (rule exE)
  have a: "tc_id (accumulatedToolCalls st ! i) =
          orElse (dtc_id (hd ?fs)) (''tool_'' @ natToString (Date_now ev k' i) @ ''_'' @ natToString i)"
    unfolding e by (rule created_entry_fields(1) [OF ne])
  show "\<exists>k'. tc_id (accumulatedToolCalls st ! i) =
          orElse (dtc_id (hd ?fs)) (''tool_'' @ natToString (Date_now ev k' i) @ ''_'' @ natToString i)"
    by (rule exI [of _ k']) (rule a)
  show "fn_name (tc_function (accumulatedToolCalls st ! i)) =
          firstNonEmpty (map (\<lambda>d. orElse (deltaName d) []) ?fs)"
    unfolding e by (rule created_entry_fields(2) [OF ne])
  show "fn_arguments (tc_function (accumulatedToolCalls st ! i)) =
          concat (map (\<lambda>d. orElse (deltaArguments d) []) ?fs)"
    unfolding e by (rule created_entry_fields(3) [OF ne])
qed

lemma merge_first_fragment:
  assumes "i < length ds" and "length acc \<le> i"
  shows "mergeToolCalls ev k acc 0 ds ! i =
          \<lparr> tc_id = orElse (dtc_id (ds ! i))
                      (''tool_'' @ natToString (Date_now ev k i) @ ''_'' @ natToString i),
            tc_type = ''function'',
            tc_function = \<lparr> fn_name = orElse (deltaName (ds ! i)) [],
                            fn_arguments = orElse (deltaArguments (ds ! i)) [] \<rparr> \<rparr>"
proof -
  have "i < max (length acc) (0 + length ds)" using assms by simp
  then have "mergeToolCalls ev k acc 0 ds ! i = newToolCall ev k i (ds ! i)"
    using mergeToolCalls_nth [of 0 acc i ds ev k] assms by simp
  then show ?thesis by (simp add: newToolCall_def)
qed

lemma merge_later_fragment:
  assumes "i < length ds" and "i < length acc"
  shows "mergeToolCalls ev k acc 0 ds ! i = appendToolCall (acc ! i) (ds ! i)"
proof -
  have "i < max (length acc) (0 + length ds)" using assms by simp
  then show ?thesis
    using mergeToolCalls_nth [of 0 acc i ds ev k] assms by simp
qed

lemma merge_untouched:
  assumes "i < length acc" and "length ds \<le> i"
  shows "mergeToolCalls ev k acc 0 ds ! i = acc ! i"
proof -
  have "i < max (length acc) (0 + length ds)" using assms by simp
  then show ?thesis
    using mergeToolCalls_nth [of 0 acc i ds ev k] assms by simp
qed

text \<open>
  Claim C1. Tool-call fragments are merged by their position in the chunk. Within one
  chunk: a fragment at a position that has no entry creates the entry, with the
  fragment's id (a generated one when it has none), its name and its arguments text; a
  fragment at a position that has an entry keeps the id, appends its arguments text, and
  sets the name only when the entry's name is empty; the entries beyond the chunk's
  fragments stay. Over a whole stream: the accumulator has an entry exactly at the
  positions where a fragment arrived, with the id the first fragment established, the
  first non-empty name, and the concatenation of the arguments texts in the order of
  arrival.
\<close>

theorem tool_call_fragments_merged_by_position:
  "length (mergeToolCalls ev k acc 0 ds) = max (length acc) (length ds)
   \<and> (\<forall>i < length ds. length acc \<le> i \<longrightarrow>
        mergeToolCalls ev k acc 0 ds ! i =
          \<lparr> tc_id = orElse (dtc_id (ds ! i))
                      (''tool_'' @ natToString (Date_now ev k i) @ ''_'' @ natToString i),
            tc_type = ''function'',
            tc_function = \<lparr> fn_name = orElse (deltaName (ds ! i)) [],
                            fn_arguments = orElse (deltaArguments (ds ! i)) [] \<rparr> \<rparr>)
   \<and> (\<forall>i < length ds. i < length acc \<longrightarrow>
        tc_id (mergeToolCalls ev k acc 0 ds ! i) = tc_id (acc ! i)
        \<and> fn_arguments (tc_function (mergeToolCalls ev k acc 0 ds ! i)) =
            fn_arguments (tc_function (acc ! i)) @ orElse (deltaArguments (ds ! i)) []
        \<and> fn_name (tc_function (mergeToolCalls ev k acc 0 ds ! i)) =
            (if fn_name (tc_function (acc ! i)) = [] then orElse (deltaName (ds ! i)) []
             else fn_name (tc_function (acc ! i))))
   \<and> (\<forall>i < length acc. length ds \<le> i \<longrightarrow> mergeToolCalls ev k acc 0 ds ! i = acc ! i)
   \<and> (consumeStream ev onChunk 0 initialState stream = Inr st \<longrightarrow>
        (\<forall>i. (i < length (accumulatedToolCalls st)) = (fragmentsAt i (chunksOf stream) \<noteq> []))
        \<and> (\<forall>i < length (accumulatedToolCalls st).
             (\<exists>k'. tc_id (accumulatedToolCalls st ! i) =
                     orElse (dtc_id (hd (fragmentsAt i (chunksOf stream))))
                       (''tool_'' @ natToString (Date_now ev k' i) @ ''_'' @ natToString i))
             \<and> fn_name (tc_function (accumulatedToolCalls st ! i)) =
                 firstNonEmpty (map (\<lambda>d. orElse (deltaName d) []) (fragmentsAt i (chunksOf stream)))
             \<and> fn_arguments (tc_function (accumulatedToolCalls st ! i)) =
                 concat (map (\<lambda>d. orElse (deltaArguments d) []) (fragmentsAt i (chunksOf stream)))))"
proof (intro conjI allI impI)
  show "length (mergeToolCalls ev k acc 0 ds) = max (length acc) (length ds)"
    by (simp add: mergeToolCalls_length)
next
  fix i assume "i < length ds" and "length acc \<le> i"
  then show "mergeToolCalls ev k acc 0 ds ! i =
          \<lparr> tc_id = orElse (dtc_id (ds ! i))
                      (''tool_'' @ natToString (Date_now ev k i) @ ''_'' @ natToString i),
            tc_type = ''function'',
            tc_function = \<lparr> fn_name = orElse (deltaName (ds ! i)) [],
                            fn_arguments = orElse (deltaArguments (ds ! i)) [] \<rparr> \<rparr>"
    by (rule merge_first_fragment)
next
  fix i assume "i < length ds" and "i < length acc"
  then have m: "mergeToolCalls ev k acc 0 ds ! i = appendToolCall (acc ! i) (ds ! i)"
    by (rule merge_later_fragment)
  show "tc_id (mergeToolCalls ev k acc 0 ds ! i) = tc_id (acc ! i)"
    by (simp only: m appendToolCall_fields)
  show "fn_arguments (tc_function (mergeToolCalls ev k acc 0 ds ! i)) =
            fn_arguments (tc_function (acc ! i)) @ orElse (deltaArguments (ds ! i)) []"
    by (simp only: m appendToolCall_fields)
  show "fn_name (tc_function (mergeToolCalls ev k acc 0 ds ! i)) =
            (if fn_name (tc_function (acc ! i)) = [] then orElse (deltaName (ds ! i)) []
             else fn_name (tc_function (acc ! i)))"
    by (simp only: m appendToolCall_fields)
next
  fix i assume "i < length acc" and "length ds \<le> i"
  then show "mergeToolCalls ev k acc 0 ds ! i = acc ! i"
    by (rule merge_untouched)
next
  fix i
  assume c: "consumeStream ev onChunk 0 initialState stream = Inr st"
  show "(i < length (accumulatedToolCalls st)) = (fragmentsAt i (chunksOf stream) \<noteq> [])"
    by (rule stream_positions [OF c])
next
  fix i
  assume c: "consumeStream ev onChunk 0 initialState stream = Inr st"
    and i: "i < length (accumulatedToolCalls st)"
  show "\<exists>k'. tc_id (accumulatedToolCalls st ! i) =
          orElse (dtc_id (hd (fragmentsAt i (chunksOf stream))))
            (''tool_'' @ natToString (Date_now ev k' i) @ ''_'' @ natToString i)"
    by (rule stream_entry(1) [OF c i])
  show "fn_name (tc_function (accumulatedToolCalls st ! i)) =
          firstNonEmpty (map (\<lambda>d. orElse (deltaName d) []) (fragmentsAt i (chunksOf stream)))"
    by (rule stream_entry(2) [OF c i])
  show "fn_arguments (tc_function (accumulatedToolCalls st ! i)) =
          concat (map (\<lambda>d. orElse (deltaArguments d) []) (fragmentsAt i (chunksOf stream)))"
    by (rule stream_entry(3) [OF c i])
qed

text \<open>
  The theorem at the stream that carries the call of \<^verbatim>\<open>lookup\<close> in two fragments at
  position 0, with the arguments split as \<^verbatim>\<open>{"q":\<close> and \<^verbatim>\<open>"x"}\<close>: the first chunk
  creates the entry, the second appends to it, and the accumulated arguments text is
  \<^verbatim>\<open>{"q":"x"}\<close>.
\<close>

theorem tool_call_fragments_merged_by_position_witness:
  \<open>(0::nat) < length [lookupFragment1]
   \<and> length ([] :: tool_call_request list) \<le> 0
   \<and> mergeToolCalls sampleEnv 0 [] 0 [lookupFragment1] ! 0 =
       \<lparr> tc_id = ''call_1'', tc_type = ''function'',
         tc_function = \<lparr> fn_name = ''lookup'', fn_arguments = ''{"q":'' \<rparr> \<rparr>
   \<and> (0::nat) < length [lookupFragment2]
   \<and> (0::nat) < length [\<lparr> tc_id = ''call_1'', tc_type = ''function'',
                          tc_function = \<lparr> fn_name = ''lookup'', fn_arguments = ''{"q":'' \<rparr> \<rparr>]
   \<and> tc_id (mergeToolCalls sampleEnv 1
               [\<lparr> tc_id = ''call_1'', tc_type = ''function'',
                   tc_function = \<lparr> fn_name = ''lookup'', fn_arguments = ''{"q":'' \<rparr> \<rparr>]
               0 [lookupFragment2] ! 0) = ''call_1''
   \<and> fn_name (tc_function (mergeToolCalls sampleEnv 1
               [\<lparr> tc_id = ''call_1'', tc_type = ''function'',
                   tc_function = \<lparr> fn_name = ''lookup'', fn_arguments = ''{"q":'' \<rparr> \<rparr>]
               0 [lookupFragment2] ! 0)) = ''lookup''
   \<and> fn_arguments (tc_function (mergeToolCalls sampleEnv 1
               [\<lparr> tc_id = ''call_1'', tc_type = ''function'',
                   tc_function = \<lparr> fn_name = ''lookup'', fn_arguments = ''{"q":'' \<rparr> \<rparr>]
               0 [lookupFragment2] ! 0)) = ''{"q":"x"}''
   \<and> consumeStream sampleEnv quietSink 0 initialState lookupStream =
       Inr \<lparr> fullContent = [], accumulatedToolCalls = [lookupRequest], forwarded = [] \<rparr>
   \<and> (0::nat) < length (accumulatedToolCalls
                          \<lparr> fullContent = [], accumulatedToolCalls = [lookupRequest], forwarded = [] \<rparr>)
   \<and> fragmentsAt 0 (chunksOf lookupStream) = [lookupFragment1, lookupFragment2]
   \<and> fn_name (tc_function (accumulatedToolCalls
         \<lparr> fullContent = [], accumulatedToolCalls = [lookupRequest], forwarded = [] \<rparr> ! 0)) = ''lookup''
   \<and> fn_arguments (tc_function (accumulatedToolCalls
         \<lparr> fullContent = [], accumulatedToolCalls = [lookupRequest], forwarded = [] \<rparr> ! 0)) =
       ''{"q":"x"}''\<close>
proof -
  let ?e1 = \<open>\<lparr> tc_id = ''call_1'', tc_type = ''function'',
               tc_function = \<lparr> fn_name = ''lookup'', fn_arguments = ''{"q":'' \<rparr> \<rparr>\<close>
  let ?st = "\<lparr> fullContent = [], accumulatedToolCalls = [lookupRequest], forwarded = [] \<rparr>"
  note T1 = tool_call_fragments_merged_by_position
              [of sampleEnv 0 "[]" "[lookupFragment1]" quietSink lookupStream ?st]
  note T2 = tool_call_fragments_merged_by_position
              [of sampleEnv 1 "[?e1]" "[lookupFragment2]" quietSink lookupStream ?st]
  have a1: "(0::nat) < length [lookupFragment1]" and a2: "length ([] :: tool_call_request list) \<le> 0"
    and b1: "(0::nat) < length [lookupFragment2]" and b2: "(0::nat) < length [?e1]"
    by simp_all
  have "mergeToolCalls sampleEnv 0 [] 0 [lookupFragment1] ! 0 =
          \<lparr> tc_id = orElse (dtc_id ([lookupFragment1] ! 0))
                      (''tool_'' @ natToString (Date_now sampleEnv 0 0) @ ''_'' @ natToString 0),
            tc_type = ''function'',
            tc_function = \<lparr> fn_name = orElse (deltaName ([lookupFragment1] ! 0)) [],
                            fn_arguments = orElse (deltaArguments ([lookupFragment1] ! 0)) [] \<rparr> \<rparr>"
    using T1 a1 a2 by blast
  then have first: "mergeToolCalls sampleEnv 0 [] 0 [lookupFragment1] ! 0 = ?e1"
    by (simp add: lookupFragment1_def deltaName_def deltaArguments_def)
  have "tc_id (mergeToolCalls sampleEnv 1 [?e1] 0 [lookupFragment2] ! 0) = tc_id ([?e1] ! 0)
        \<and> fn_arguments (tc_function (mergeToolCalls sampleEnv 1 [?e1] 0 [lookupFragment2] ! 0)) =
            fn_arguments (tc_function ([?e1] ! 0)) @ orElse (deltaArguments ([lookupFragment2] ! 0)) []
        \<and> fn_name (tc_function (mergeToolCalls sampleEnv 1 [?e1] 0 [lookupFragment2] ! 0)) =
            (if fn_name (tc_function ([?e1] ! 0)) = [] then orElse (deltaName ([lookupFragment2] ! 0)) []
             else fn_name (tc_function ([?e1] ! 0)))"
    using T2 b1 b2 by blast
  then have later:
    \<open>tc_id (mergeToolCalls sampleEnv 1 [?e1] 0 [lookupFragment2] ! 0) = ''call_1''
     \<and> fn_name (tc_function (mergeToolCalls sampleEnv 1 [?e1] 0 [lookupFragment2] ! 0)) = ''lookup''
     \<and> fn_arguments (tc_function (mergeToolCalls sampleEnv 1 [?e1] 0 [lookupFragment2] ! 0)) =
         ''{"q":"x"}''\<close>
    by (simp add: lookupFragment2_def deltaArguments_def)
  note c = consumeStream_lookupStream
  have l: "(0::nat) < length (accumulatedToolCalls ?st)"
    by simp
  have f: "fragmentsAt 0 (chunksOf lookupStream) = [lookupFragment1, lookupFragment2]"
    by (simp add: fragmentsAt_def lookupStream_def fragmentChunk_def toolCallFragments_def)
  have "fn_name (tc_function (accumulatedToolCalls ?st ! 0)) =
          firstNonEmpty (map (\<lambda>d. orElse (deltaName d) []) (fragmentsAt 0 (chunksOf lookupStream)))
        \<and> fn_arguments (tc_function (accumulatedToolCalls ?st ! 0)) =
          concat (map (\<lambda>d. orElse (deltaArguments d) []) (fragmentsAt 0 (chunksOf lookupStream)))"
    using T1 c l by blast
  then have whole:
    \<open>fn_name (tc_function (accumulatedToolCalls ?st ! 0)) = ''lookup''
     \<and> fn_arguments (tc_function (accumulatedToolCalls ?st ! 0)) = ''{"q":"x"}''\<close>
    unfolding f
    by (simp add: lookupFragment1_def lookupFragment2_def deltaName_def deltaArguments_def)
  show ?thesis
    using a1 a2 first b1 b2 later c l f whole by blast
qed

end
